theory Spec2Isabelle
  imports Complex_Main "HOL-Library.AList" "HOL-Library.Multiset" "HOL-Library.Word"
begin

section \<open>The tagger of app.py: data model\<close>

text \<open>
  The development embeds \<^verbatim>\<open>load_labels\<close>, \<^verbatim>\<open>mcut_threshold\<close> and the class
  \<^verbatim>\<open>Predictor\<close> of \<^verbatim>\<open>app.py\<close>. A confidence is a float in the source; here it is the
  real number that the float denotes. Comparing two floats compares these numbers; an
  arithmetic operation of the source gives the exact result rounded to the nearest double
  (\<open>float64\<close> below). Every Python exception is a value of \<open>error\<close>, and a function that
  can raise returns \<open>error + 'a\<close> with \<open>Inl\<close> for the exception.
\<close>

datatype error =
    KeyError | ValueError | IndexError | TypeError | AttributeError
  | FetchError | ParseError | SessionError | RunError

subsection \<open>Constants\<close>

definition MODEL_FILENAME :: string where
  "MODEL_FILENAME = ''model.onnx''"

definition LABEL_FILENAME :: string where
  "LABEL_FILENAME = ''selected_tags.csv''"

definition kaomojis :: "string list" where
  "kaomojis =
    [''0_0'', ''(o)_(o)'', ''+_+'', ''+_-'', ''._.'', ''<o>_<o>'', ''<|>_<|>'', ''=_='',
     ''>_<'', ''3_3'', ''6_9'', ''>_o'', ''@_@'', ''^_^'', ''o_o'', ''u_u'', ''x_x'',
     ''|_|'', ''||_||'']"

subsection \<open>Strings and lists as Python has them\<close>

text \<open>\<^verbatim>\<open>s.replace(old, new)\<close> for a pattern \<open>old\<close> of one character.\<close>

definition str_replace :: "char \<Rightarrow> string \<Rightarrow> string \<Rightarrow> string" where
  "str_replace old new s = concat (map (\<lambda>c. if c = old then new else [c]) s)"

text \<open>\<^verbatim>\<open>sep.join(xs)\<close>.\<close>

fun str_join :: "string \<Rightarrow> string list \<Rightarrow> string" where
  "str_join sep [] = []"
| "str_join sep [x] = x"
| "str_join sep (x # y # ys) = x @ sep @ str_join sep (y # ys)"

text \<open>
  \<^verbatim>\<open>[labels[i] for i in indexes]\<close>: the indexes come from \<^verbatim>\<open>np.where\<close>, so
  they are never negative; an index past the end raises IndexError.
\<close>

fun pick :: "'a list \<Rightarrow> nat list \<Rightarrow> error + 'a list" where
  "pick labels [] = Inr []"
| "pick labels (i # is) =
     (if i < length labels
      then (case pick labels is of Inl e \<Rightarrow> Inl e | Inr r \<Rightarrow> Inr (labels ! i # r))
      else Inl IndexError)"

text \<open>
  \<^verbatim>\<open>dict(pairs)\<close>: a Python dict keeps its keys in the order of their first insertion,
  and a later pair with a key already present overwrites the value in place. This is what
  \<open>AList.update\<close> does on an association list.
\<close>

definition py_dict :: "('k \<times> 'v) list \<Rightarrow> ('k \<times> 'v) list" where
  "py_dict pairs = fold (\<lambda>kv d. AList.update (fst kv) (snd kv) d) pairs []"

subsection \<open>The label catalog\<close>

text \<open>
  A data frame is read by column; a column that the table lacks is \<open>None\<close>, and
  \<^verbatim>\<open>dataframe["name"]\<close> raises KeyError then.
\<close>

record dataframe =
  name_column :: "string list option"
  category_column :: "int list option"

text \<open>\<^verbatim>\<open>np.where(column == c)[0]\<close>: the row positions that hold \<open>c\<close>, in row order.\<close>

definition np_where :: "int list \<Rightarrow> int \<Rightarrow> nat list" where
  "np_where column c = filter (\<lambda>i. column ! i = c) [0..<length column]"

definition load_labels ::
  "dataframe \<Rightarrow> error + (string list \<times> nat list \<times> nat list \<times> nat list)" where
  "load_labels dataframe =
     (case name_column dataframe of
        None \<Rightarrow> Inl KeyError
      | Some name_series \<Rightarrow>
          (let tag_names =
                 map (\<lambda>x. if x \<notin> set kaomojis then str_replace (CHR ''_'') '' '' x else x)
                   name_series
           in case category_column dataframe of
                None \<Rightarrow> Inl KeyError
              | Some category \<Rightarrow>
                  Inr (tag_names, np_where category 9, np_where category 0,
                       np_where category 4)))"

subsection \<open>Double precision arithmetic\<close>

text \<open>
  \<open>float64 x\<close> is the double nearest to the real number \<open>x\<close>, the even one of two
  that are equally near: 53 significant bits, the least exponent \<open>- 1022\<close> (below it the
  spacing stays \<open>2 ^ - 1074\<close>). It is what a float64 operation gives for the exact result
  \<open>x\<close>, and what the decimal literal \<open>x\<close> denotes in the source. The sign of zero, NaN,
  the infinities and overflow (magnitudes from \<open>2 ^ 1024\<close> on) are not modelled: a
  confidence is a finite number between 0 and 1.

  \<open>binade fuel a\<close> is the exponent \<open>e\<close> with \<open>2 ^ e \<le> a < 2 ^ (e + 1)\<close> of a positive
  \<open>a\<close>, found by halving or doubling at most \<open>fuel\<close> times.
\<close>

fun binade :: "nat \<Rightarrow> real \<Rightarrow> int" where
  "binade fuel a =
     (if fuel = 0 then 0
      else if 2 \<le> a then binade (fuel - 1) (a / 2) + 1
      else if a < 1 then binade (fuel - 1) (a * 2) - 1
      else 0)"

declare binade.simps [simp del]

definition pow2 :: "int \<Rightarrow> real" where
  "pow2 e = (if 0 \<le> e then 2 ^ nat e else 1 / 2 ^ nat (- e))"

definition round_half_even :: "real \<Rightarrow> int" where
  "round_half_even x =
     (let f = \<lfloor>x\<rfloor>
      in if x - of_int f < 1 / 2 then f
         else if 1 / 2 < x - of_int f then f + 1
         else if even f then f else f + 1)"

definition float64 :: "real \<Rightarrow> real" where
  "float64 x =
     (if x = 0 then 0
      else (let e = max (binade 1100 \<bar>x\<bar>) (- 1022);
                q = pow2 (e - 52)
            in sgn x * of_int (round_half_even (\<bar>x\<bar> / q)) * q))"

definition f64_add :: "real \<Rightarrow> real \<Rightarrow> real" where
  "f64_add a b = float64 (a + b)"

definition f64_sub :: "real \<Rightarrow> real \<Rightarrow> real" where
  "f64_sub a b = float64 (a - b)"

definition f64_div :: "real \<Rightarrow> real \<Rightarrow> real" where
  "f64_div a b = float64 (a / b)"

subsection \<open>Maximum cut thresholding\<close>

text \<open>
  \<^verbatim>\<open>probs.argsort()\<close>: the positions of \<open>probs\<close> in ascending order of their values.
  numpy does not fix the order of positions with equal values; the values read through
  them are the same in any such order.
\<close>

definition argsort :: "real list \<Rightarrow> nat list" where
  "argsort probs = map snd (sort_key fst (zip probs [0..<length probs]))"

text \<open>
  \<^verbatim>\<open>difs.argmax()\<close>: the first position of the greatest element; ValueError on an
  empty array.
\<close>

fun argmax_from :: "real list \<Rightarrow> nat \<Rightarrow> nat \<Rightarrow> real \<Rightarrow> nat" where
  "argmax_from [] i best v = best"
| "argmax_from (d # ds) i best v =
     (if v < d then argmax_from ds (Suc i) i d else argmax_from ds (Suc i) best v)"

definition argmax :: "real list \<Rightarrow> error + nat" where
  "argmax difs = (case difs of [] \<Rightarrow> Inl ValueError | d # ds \<Rightarrow> Inr (argmax_from ds 1 0 d))"

text \<open>
  Lines 96 to 99. The array holds float64 values, so the differences of neighbours, the
  sum and the division by 2 are float64 operations: \<^verbatim>\<open>argmax\<close> compares the rounded
  differences.
\<close>

definition mcut_threshold :: "real list \<Rightarrow> error + real" where
  "mcut_threshold probs =
     (let sorted_probs = map (\<lambda>i. probs ! i) (rev (argsort probs));
          difs = map2 f64_sub (butlast sorted_probs) (tl sorted_probs)
      in case argmax difs of
           Inl e \<Rightarrow> Inl e
         | Inr t \<Rightarrow> Inr (f64_div (f64_add (sorted_probs ! t) (sorted_probs ! (t + 1))) 2))"

section \<open>The predictor\<close>

subsection \<open>External collaborators\<close>

text \<open>
  A pixel channel is an unsigned byte. An image has a size (width, height) and a pixel at
  every coordinate (x, y) inside it; what \<open>getpixel\<close> holds outside the size is never
  read.
\<close>

type_synonym rgb = "8 word \<times> 8 word \<times> 8 word"
type_synonym rgba = "8 word \<times> 8 word \<times> 8 word \<times> 8 word"

record 'p image =
  im_size :: "nat \<times> nat"
  getpixel :: "nat \<times> nat \<Rightarrow> 'p"

type_synonym tensor = "real list list list list"

text \<open>
  An onnxruntime session: the declared shape of its one input, and \<^verbatim>\<open>run\<close>, which
  gives the row \<^verbatim>\<open>preds[0]\<close> of its one output or raises.
\<close>

record session =
  input_shape :: "nat list"
  run :: "tensor \<Rightarrow> error + real list"

text \<open>
  What the program calls and does not define: the artifact store, the CSV reader, the
  session constructor, and two pixel operations of the imaging library (the blend of one
  pixel over another, and the bicubic resampling that gives the pixel of the resized
  image at a coordinate).
\<close>

record env =
  hf_hub_download :: "string \<Rightarrow> string \<Rightarrow> error + string"
  read_csv :: "string \<Rightarrow> error + dataframe"
  InferenceSession :: "string \<Rightarrow> error + session"
  alpha_over :: "rgba \<Rightarrow> rgba \<Rightarrow> rgba"
  bicubic :: "nat \<times> nat \<Rightarrow> rgb image \<Rightarrow> nat \<times> nat \<Rightarrow> rgb"

text \<open>The calls to the collaborators that a load makes, in order.\<close>

datatype event = Download string string | ReadCsv string | NewSession string

subsection \<open>The cached state\<close>

text \<open>
  The attributes of a \<^verbatim>\<open>Predictor\<close>. \<^verbatim>\<open>__init__\<close> sets two of them to None; the other
  five do not exist before the first load, which is \<open>None\<close> here too, and reading one
  then raises AttributeError.
\<close>

record predictor =
  tag_names :: "string list option"
  rating_indexes :: "nat list option"
  general_indexes :: "nat list option"
  character_indexes :: "nat list option"
  model :: "session option"
  model_target_size :: "nat option"
  last_loaded_repo :: "string option"

definition Predictor_init :: predictor where
  "Predictor_init =
     \<lparr>tag_names = None, rating_indexes = None, general_indexes = None,
      character_indexes = None, model = None, model_target_size = None,
      last_loaded_repo = None\<rparr>"

definition attr :: "'a option \<Rightarrow> error + 'a" where
  "attr a = (case a of None \<Rightarrow> Inl AttributeError | Some x \<Rightarrow> Inr x)"

text \<open>Sequencing: an exception ends the computation, a value goes on to the next step.\<close>

definition andthen :: "error + 'a \<Rightarrow> ('a \<Rightarrow> error + 'b) \<Rightarrow> error + 'b" where
  "andthen r f = (case r of Inl e \<Rightarrow> Inl e | Inr x \<Rightarrow> f x)"

subsection \<open>Loading a model\<close>

definition download_model :: "env \<Rightarrow> string \<Rightarrow> event list \<times> (error + string \<times> string)" where
  "download_model env model_repo =
     (case hf_hub_download env model_repo LABEL_FILENAME of
        Inl e \<Rightarrow> ([Download model_repo LABEL_FILENAME], Inl e)
      | Inr csv_path \<Rightarrow>
          (case hf_hub_download env model_repo MODEL_FILENAME of
             Inl e \<Rightarrow>
               ([Download model_repo LABEL_FILENAME, Download model_repo MODEL_FILENAME],
                Inl e)
           | Inr model_path \<Rightarrow>
               ([Download model_repo LABEL_FILENAME, Download model_repo MODEL_FILENAME],
                Inr (csv_path, model_path))))"

text \<open>
  \<^verbatim>\<open>load_model\<close> returns the calls it made, the exception it raised if any, and the
  predictor as the call leaves it. The assignments are in the order of the source: the
  catalog is stored before the session is built.
\<close>

definition load_model ::
  "env \<Rightarrow> string \<Rightarrow> predictor \<Rightarrow> event list \<times> error option \<times> predictor" where
  "load_model env model_repo self =
     (if Some model_repo = last_loaded_repo self then ([], None, self)
      else
        (case download_model env model_repo of
           (io, Inl e) \<Rightarrow> (io, Some e, self)
         | (io, Inr (csv_path, model_path)) \<Rightarrow>
             (case read_csv env csv_path of
                Inl e \<Rightarrow> (io @ [ReadCsv csv_path], Some e, self)
              | Inr tags_df \<Rightarrow>
                  (case load_labels tags_df of
                     Inl e \<Rightarrow> (io @ [ReadCsv csv_path], Some e, self)
                   | Inr sep_tags \<Rightarrow>
                       (let self1 = self
                              \<lparr>tag_names := Some (fst sep_tags),
                               rating_indexes := Some (fst (snd sep_tags)),
                               general_indexes := Some (fst (snd (snd sep_tags))),
                               character_indexes := Some (snd (snd (snd sep_tags)))\<rparr>;
                            io1 = io @ [ReadCsv csv_path, NewSession model_path]
                        in case InferenceSession env model_path of
                             Inl e \<Rightarrow> (io1, Some e, self1)
                           | Inr m \<Rightarrow>
                               (case input_shape m of
                                  [_, height, width, _] \<Rightarrow>
                                    (io1, None,
                                     self1\<lparr>model_target_size := Some height,
                                           last_loaded_repo := Some model_repo,
                                           model := Some m\<rparr>)
                                | _ \<Rightarrow> (io1, Some ValueError, self1)))))))"

subsection \<open>Preparing the image\<close>

text \<open>The operations of the imaging library that \<^verbatim>\<open>prepare_image\<close> uses.\<close>

definition Image_new :: "nat \<times> nat \<Rightarrow> 'p \<Rightarrow> 'p image" where
  "Image_new sz color = \<lparr>im_size = sz, getpixel = (\<lambda>xy. color)\<rparr>"

definition alpha_composite :: "env \<Rightarrow> rgba image \<Rightarrow> rgba image \<Rightarrow> rgba image" where
  "alpha_composite env canvas im =
     canvas\<lparr>getpixel := (\<lambda>xy.
        if fst xy < fst (im_size im) \<and> snd xy < snd (im_size im)
        then alpha_over env (getpixel im xy) (getpixel canvas xy)
        else getpixel canvas xy)\<rparr>"

definition convert_RGB :: "rgba image \<Rightarrow> rgb image" where
  "convert_RGB im =
     \<lparr>im_size = im_size im,
      getpixel = (\<lambda>xy. case getpixel im xy of (r, g, b, a) \<Rightarrow> (r, g, b))\<rparr>"

definition paste :: "rgb image \<Rightarrow> rgb image \<Rightarrow> nat \<times> nat \<Rightarrow> rgb image" where
  "paste canvas im box =
     canvas\<lparr>getpixel := (\<lambda>xy.
        if fst box \<le> fst xy \<and> fst xy < fst box + fst (im_size im) \<and>
           snd box \<le> snd xy \<and> snd xy < snd box + snd (im_size im)
        then getpixel im (fst xy - fst box, snd xy - snd box)
        else getpixel canvas xy)\<rparr>"

definition resize :: "env \<Rightarrow> rgb image \<Rightarrow> nat \<times> nat \<Rightarrow> error + rgb image" where
  "resize env im sz =
     (if fst sz = 0 \<or> snd sz = 0 then Inl ValueError
      else Inr \<lparr>im_size = sz, getpixel = bicubic env sz im\<rparr>)"

text \<open>
  \<^verbatim>\<open>np.asarray(im, dtype=np.float32)\<close>: rows, then columns, then the three channels,
  each byte as the number it is.
\<close>

definition np_asarray :: "rgb image \<Rightarrow> real list list list" where
  "np_asarray im =
     map (\<lambda>y. map (\<lambda>x. case getpixel im (x, y) of
                          (r, g, b) \<Rightarrow> [real (unat r), real (unat g), real (unat b)])
                 [0..<fst (im_size im)])
       [0..<snd (im_size im)]"

definition prepare_image :: "env \<Rightarrow> predictor \<Rightarrow> rgba image \<Rightarrow> error + tensor" where
  "prepare_image env self im =
     (let target_size = model_target_size self;
          canvas = Image_new (im_size im) (255, 255, 255, 255);
          canvas = alpha_composite env canvas im;
          image = convert_RGB canvas;
          image_shape = im_size image;
          max_dim = max (fst image_shape) (snd image_shape);
          pad_left = (max_dim - fst image_shape) div 2;
          pad_top = (max_dim - snd image_shape) div 2;
          padded_image = Image_new (max_dim, max_dim) (255, 255, 255);
          padded_image = paste padded_image image (pad_left, pad_top)
      in andthen
           (if Some max_dim \<noteq> target_size
            then (case target_size of
                    None \<Rightarrow> Inl TypeError
                  | Some s \<Rightarrow> resize env padded_image (s, s))
            else Inr padded_image)
           (\<lambda>padded_image.
              let image_array = np_asarray padded_image;
                  image_array = map (map rev) image_array
              in Inr [image_array]))"

text \<open>
  Two intermediate images of \<^verbatim>\<open>prepare_image\<close>, named to state its properties. Lines 145
  to 147: the image over an opaque white canvas of its size, without alpha.
\<close>

definition flatten_white :: "env \<Rightarrow> rgba image \<Rightarrow> rgb image" where
  "flatten_white env im =
     convert_RGB (alpha_composite env (Image_new (im_size im) (255, 255, 255, 255)) im)"

text \<open>Lines 150 to 156: the image pasted on a white square of its longer side.\<close>

definition pad_square :: "rgb image \<Rightarrow> rgb image" where
  "pad_square im =
     (let image_shape = im_size im;
          max_dim = max (fst image_shape) (snd image_shape);
          pad_left = (max_dim - fst image_shape) div 2;
          pad_top = (max_dim - snd image_shape) div 2;
          padded_image = Image_new (max_dim, max_dim) (255, 255, 255)
      in paste padded_image im (pad_left, pad_top))"

subsection \<open>Predicting\<close>

text \<open>
  Lines 217 to 225. \<^verbatim>\<open>sorted(..., reverse=True)\<close> is stable: items with equal keys
  stay in the order they had, here the order of the dict.
\<close>

definition format_tags :: "(string \<times> real) list \<Rightarrow> string" where
  "format_tags general_res =
     (let sorted_general_strings = sort_key (\<lambda>x. - snd x) general_res;
          sorted_general_strings = map fst sorted_general_strings
      in str_replace (CHR '')'') [CHR 0x5C, CHR '')'']
           (str_replace (CHR ''('') [CHR 0x5C, CHR ''(''] (str_join '', '' sorted_general_strings)))"

type_synonym tag_result =
  "string \<times> (string \<times> real) list \<times> (string \<times> real) list \<times> (string \<times> real) list"

text \<open>Lines 184 to 227: \<^verbatim>\<open>predict\<close> once the model is loaded.\<close>

definition predict_loaded ::
  "env \<Rightarrow> rgba image \<Rightarrow> real \<Rightarrow> bool \<Rightarrow> real \<Rightarrow> bool \<Rightarrow> predictor \<Rightarrow> error + tag_result" where
  "predict_loaded env im general_thresh general_mcut_enabled character_thresh
       character_mcut_enabled self =
     andthen (prepare_image env self im) (\<lambda>tensor.
     andthen (attr (model self)) (\<lambda>m.
     andthen (run m tensor) (\<lambda>preds0.
     andthen (attr (tag_names self)) (\<lambda>names.
     let labels = zip names preds0 in
     andthen (attr (rating_indexes self)) (\<lambda>ridx.
     andthen (pick labels ridx) (\<lambda>ratings_names.
     let rating = py_dict ratings_names in
     andthen (attr (general_indexes self)) (\<lambda>gidx.
     andthen (pick labels gidx) (\<lambda>general_names.
     andthen (if general_mcut_enabled then mcut_threshold (map snd general_names)
              else Inr general_thresh) (\<lambda>general_thresh.
     let general_res = py_dict (filter (\<lambda>x. snd x > general_thresh) general_names) in
     andthen (attr (character_indexes self)) (\<lambda>cidx.
     andthen (pick labels cidx) (\<lambda>character_names.
     andthen (if character_mcut_enabled
              then andthen (mcut_threshold (map snd character_names))
                     (\<lambda>character_thresh. Inr (max (float64 (15 / 100)) character_thresh))
              else Inr character_thresh) (\<lambda>character_thresh.
     let character_res = py_dict (filter (\<lambda>x. snd x > character_thresh) character_names)
     in Inr (format_tags general_res, rating, character_res, general_res)))))))))))))"

definition predict ::
  "env \<Rightarrow> rgba image \<Rightarrow> string \<Rightarrow> real \<Rightarrow> bool \<Rightarrow> real \<Rightarrow> bool \<Rightarrow> predictor
     \<Rightarrow> (error + tag_result) \<times> predictor" where
  "predict env im model_repo general_thresh general_mcut_enabled character_thresh
       character_mcut_enabled self =
     (case load_model env model_repo self of
        (io, Some e, self') \<Rightarrow> (Inl e, self')
      | (io, None, self') \<Rightarrow>
          (predict_loaded env im general_thresh general_mcut_enabled character_thresh
             character_mcut_enabled self', self'))"

section \<open>Concrete configurations\<close>

text \<open>
  Small collaborators on which the program can be run: an artifact store that always
  answers, a reader that gives one fixed table, a session of input size 1 that gives
  one fixed prediction vector, and an image of one pixel.
\<close>

definition stub_env :: "dataframe \<Rightarrow> error + session \<Rightarrow> env" where
  "stub_env table sess =
     \<lparr>hf_hub_download = (\<lambda>repo file. Inr (repo @ ''/'' @ file)),
      read_csv = (\<lambda>path. Inr table),
      InferenceSession = (\<lambda>path. sess),
      alpha_over = (\<lambda>src dst. src),
      bicubic = (\<lambda>sz im xy. (0, 0, 0))\<rparr>"

definition stub_session :: "real list \<Rightarrow> session" where
  "stub_session preds = \<lparr>input_shape = [1, 1, 1, 3], run = (\<lambda>t. Inr preds)\<rparr>"

definition one_pixel :: "rgba image" where
  "one_pixel = \<lparr>im_size = (1, 1), getpixel = (\<lambda>xy. (10, 20, 30, 255))\<rparr>"

definition table_fixed :: dataframe where
  "table_fixed =
     \<lparr>name_column = Some [''general'', ''sensitive'', ''long_hair'', ''cat_(ears)'', ''^_^'',
                          ''smile'', ''hatsune_miku'', ''power_(csm)''],
      category_column = Some [9, 9, 0, 0, 0, 0, 4, 4]\<rparr>"

definition preds_fixed :: "real list" where
  "preds_fixed = [9/10, 1/10, 35/100, 9/10, 6/10, 8/10, 85/100, 95/100]"

definition env_fixed :: env where
  "env_fixed = stub_env table_fixed (Inr (stub_session preds_fixed))"

definition env_floor :: env where
  "env_floor = stub_env
     \<lparr>name_column = Some [''general'', ''1girl'', ''solo'', ''reimu'', ''marisa''],
      category_column = Some [9, 0, 0, 4, 4]\<rparr>
     (Inr (stub_session [9 / 10, 1 / 10, 0, 1 / 10, 0]))"

definition env_single :: env where
  "env_single = stub_env
     \<lparr>name_column = Some [''general'', ''solo'', ''reimu'', ''marisa''],
      category_column = Some [9, 0, 4, 4]\<rparr>
     (Inr (stub_session [9 / 10, 5 / 10, 3 / 10, 2 / 10]))"

definition table_dup :: dataframe where
  "table_dup =
     \<lparr>name_column = Some [''general'', ''long_hair'', ''long hair'', ''reimu''],
      category_column = Some [9, 0, 0, 4]\<rparr>"

definition env_dup :: env where
  "env_dup = stub_env table_dup (Inr (stub_session [3 / 4, 3 / 4, 5 / 8, 7 / 8]))"

definition loaded_fixed :: predictor where
  "loaded_fixed =
     \<lparr>tag_names = Some [''general'', ''sensitive'', ''long hair'', ''cat (ears)'', ''^_^'',
                        ''smile'', ''hatsune miku'', ''power (csm)''],
      rating_indexes = Some [0, 1], general_indexes = Some [2, 3, 4, 5],
      character_indexes = Some [6, 7], model = Some (stub_session preds_fixed),
      model_target_size = Some 1, last_loaded_repo = Some ''m''\<rparr>"

definition env_broken :: env where
  "env_broken = stub_env table_dup (Inl SessionError)"

definition env_offline :: env where
  "env_offline = (stub_env table_dup (Inl SessionError))
     \<lparr>hf_hub_download := (\<lambda>repo file. Inl FetchError)\<rparr>"

definition env_longer :: env where
  "env_longer = stub_env
     \<lparr>name_column = Some [''general'', ''solo''], category_column = Some [9, 0]\<rparr>
     (Inr (stub_session [9 / 10, 8 / 10, 7 / 10]))"

definition env_shorter :: env where
  "env_shorter = stub_env
     \<lparr>name_column = Some [''general'', ''solo'', ''artist_name''],
      category_column = Some [9, 0, 1]\<rparr>
     (Inr (stub_session [9 / 10, 8 / 10]))"

definition env_past_end :: env where
  "env_past_end = stub_env
     \<lparr>name_column = Some [''general'', ''solo'', ''reimu''],
      category_column = Some [9, 0, 4]\<rparr>
     (Inr (stub_session [9 / 10, 8 / 10]))"

definition loaded :: "env \<Rightarrow> predictor" where
  "loaded env = snd (snd (load_model env ''m'' Predictor_init))"

definition tall_image :: "rgba image" where
  "tall_image = \<lparr>im_size = (1, 3), getpixel = (\<lambda>xy. (10, 20, 30, 255))\<rparr>"

definition table_mixed :: dataframe where
  "table_mixed =
     \<lparr>name_column = Some [''general'', ''sensitive'', ''long_hair'', ''cat_(ears)'', ''smile'',
                          ''reimu'', ''marisa''],
      category_column = Some [9, 9, 0, 0, 0, 4, 4]\<rparr>"

definition env_mixed :: env where
  "env_mixed = stub_env table_mixed
     (Inr (stub_session [3 / 4, 1 / 4, 1 / 2, 7 / 8, 5 / 8, 1 / 2, 3 / 4]))"

definition env_low :: env where
  "env_low = stub_env
     \<lparr>name_column = Some [''general'', ''1girl'', ''solo'', ''reimu'', ''marisa''],
      category_column = Some [9, 0, 0, 4, 4]\<rparr>
     (Inr (stub_session [3 / 4, 1 / 8, 0, 1 / 8, 0]))"

section \<open>Properties\<close>

subsection \<open>Auxiliary facts\<close>

lemma sorted_probs_eq: "map (\<lambda>i. probs ! i) (rev (argsort probs)) = rev (sort probs)"
proof -
  let ?zs = "zip probs [0..<length probs]"
  have mem: "\<forall>z \<in> set (sort_key fst ?zs). probs ! snd z = fst z"
    by (auto simp: set_zip)
  have "map (\<lambda>i. probs ! i) (argsort probs) = map fst (sort_key fst ?zs)"
    unfolding argsort_def using mem by (simp add: map_eq_conv)
  also have "\<dots> = sort probs"
  proof (rule properties_for_sort [symmetric])
    show "mset (map fst (sort_key fst ?zs)) = mset probs"
      by (metis length_upt map_fst_zip mset_map mset_sort minus_nat.diff_0)
    show "sorted (map fst (sort_key fst ?zs))" by simp
  qed
  finally show ?thesis by (simp add: rev_map [symmetric])
qed

lemma argmax_from_props:
  "argmax_from ds i best v = k \<Longrightarrow> best < i \<Longrightarrow>
     (k = best \<and> (\<forall>d \<in> set ds. d \<le> v)) \<or>
     (i \<le> k \<and> k < i + length ds \<and> v < ds ! (k - i) \<and>
        (\<forall>j < length ds. ds ! j \<le> ds ! (k - i)) \<and> (\<forall>j < k - i. ds ! j < ds ! (k - i)))"
proof (induction ds i best v arbitrary: k rule: argmax_from.induct)
  case (1 i best v)
  then show ?case by simp
next
  case (2 d ds i best v)
  show ?case
  proof (cases "v < d")
    case True
    with 2 have "argmax_from ds (Suc i) i d = k" by simp
    from "2.IH"(1)[OF True this] have
      "(k = i \<and> (\<forall>x \<in> set ds. x \<le> d)) \<or>
       (Suc i \<le> k \<and> k < Suc i + length ds \<and> d < ds ! (k - Suc i) \<and>
        (\<forall>j < length ds. ds ! j \<le> ds ! (k - Suc i)) \<and> (\<forall>j < k - Suc i. ds ! j < ds ! (k - Suc i)))"
      by simp
    then show ?thesis
    proof
      assume a: "k = i \<and> (\<forall>x \<in> set ds. x \<le> d)"
      then have "\<forall>j < length (d # ds). (d # ds) ! j \<le> d"
        by (auto simp: nth_Cons split: nat.splits)
      with a True show ?thesis by simp
    next
      assume a: "Suc i \<le> k \<and> k < Suc i + length ds \<and> d < ds ! (k - Suc i) \<and>
        (\<forall>j < length ds. ds ! j \<le> ds ! (k - Suc i)) \<and> (\<forall>j < k - Suc i. ds ! j < ds ! (k - Suc i))"
      then obtain m where m: "k - i = Suc m" "k - Suc i = m" by (metis Suc_diff_le diff_Suc_Suc)
      have "\<forall>j < length (d # ds). (d # ds) ! j \<le> ds ! m"
        using a m by (auto simp: nth_Cons split: nat.splits)
      moreover have "\<forall>j < Suc m. (d # ds) ! j < ds ! m"
        using a m by (auto simp: nth_Cons split: nat.splits)
      ultimately show ?thesis using a m True by auto
    qed
  next
    case False
    with 2 have "argmax_from ds (Suc i) best v = k" by simp
    from "2.IH"(2)[OF False this] "2.prems" have
      "(k = best \<and> (\<forall>x \<in> set ds. x \<le> v)) \<or>
       (Suc i \<le> k \<and> k < Suc i + length ds \<and> v < ds ! (k - Suc i) \<and>
        (\<forall>j < length ds. ds ! j \<le> ds ! (k - Suc i)) \<and> (\<forall>j < k - Suc i. ds ! j < ds ! (k - Suc i)))"
      by simp
    then show ?thesis
    proof
      assume "k = best \<and> (\<forall>x \<in> set ds. x \<le> v)"
      with False show ?thesis by auto
    next
      assume a: "Suc i \<le> k \<and> k < Suc i + length ds \<and> v < ds ! (k - Suc i) \<and>
        (\<forall>j < length ds. ds ! j \<le> ds ! (k - Suc i)) \<and> (\<forall>j < k - Suc i. ds ! j < ds ! (k - Suc i))"
      then obtain m where m: "k - i = Suc m" "k - Suc i = m" by (metis Suc_diff_le diff_Suc_Suc)
      have "\<forall>j < length (d # ds). (d # ds) ! j \<le> ds ! m"
        using a m False by (auto simp: nth_Cons split: nat.splits)
      moreover have "\<forall>j < Suc m. (d # ds) ! j < ds ! m"
        using a m False by (auto simp: nth_Cons split: nat.splits)
      ultimately show ?thesis using a m by auto
    qed
  qed
qed

lemma argmax_first_max:
  assumes "argmax difs = Inr k"
  shows "k < length difs \<and> (\<forall>j < length difs. difs ! j \<le> difs ! k) \<and> (\<forall>j < k. difs ! j < difs ! k)"
proof (cases difs)
  case Nil
  with assms show ?thesis by (simp add: argmax_def)
next
  case (Cons d ds)
  with assms have "argmax_from ds 1 0 d = k" by (simp add: argmax_def)
  from argmax_from_props[OF this] have
    "(k = 0 \<and> (\<forall>x \<in> set ds. x \<le> d)) \<or>
     (1 \<le> k \<and> k < 1 + length ds \<and> d < ds ! (k - 1) \<and>
        (\<forall>j < length ds. ds ! j \<le> ds ! (k - 1)) \<and> (\<forall>j < k - 1. ds ! j < ds ! (k - 1)))"
    by simp
  then show ?thesis
  proof
    assume "k = 0 \<and> (\<forall>x \<in> set ds. x \<le> d)"
    then show ?thesis using Cons by (auto simp: nth_Cons split: nat.splits)
  next
    assume a: "1 \<le> k \<and> k < 1 + length ds \<and> d < ds ! (k - 1) \<and>
        (\<forall>j < length ds. ds ! j \<le> ds ! (k - 1)) \<and> (\<forall>j < k - 1. ds ! j < ds ! (k - 1))"
    then obtain m where m: "k = Suc m" by (cases k) auto
    have "\<forall>j < length (d # ds). (d # ds) ! j \<le> ds ! m"
      using a m by (auto simp: nth_Cons less_imp_le split: nat.splits)
    moreover have "\<forall>j < Suc m. (d # ds) ! j < ds ! m"
      using a m by (auto simp: nth_Cons split: nat.splits)
    ultimately show ?thesis using a m Cons by auto
  qed
qed

lemma andthen_Inr_iff: "andthen r f = Inr y \<longleftrightarrow> (\<exists>x. r = Inr x \<and> f x = Inr y)"
  by (cases r) (simp_all add: andthen_def)

lemma attr_Inr_iff: "attr a = Inr x \<longleftrightarrow> a = Some x"
  by (cases a) (simp_all add: attr_def)

lemma pick_eq:
  "pick labels idx =
     (if \<forall>i \<in> set idx. i < length labels then Inr (map (\<lambda>i. labels ! i) idx)
      else Inl IndexError)"
  by (induction idx) auto

lemma pick_Inr_iff:
  "pick labels idx = Inr r \<longleftrightarrow> (\<forall>i \<in> set idx. i < length labels) \<and> r = map (\<lambda>i. labels ! i) idx"
  by (auto simp: pick_eq)

lemma mcut_threshold_short: "length probs < 2 \<Longrightarrow> mcut_threshold probs = Inl ValueError"
proof -
  assume "length probs < 2"
  then have "length (rev (sort probs)) < 2" by simp
  then have "map2 f64_sub (butlast (rev (sort probs))) (tl (rev (sort probs))) = []"
    by (cases "rev (sort probs)") (auto simp del: sort_key_simps)
  then show ?thesis
    unfolding mcut_threshold_def Let_def sorted_probs_eq by (simp only: argmax_def list.case sum.case)
qed

lemma mcut_threshold_long:
  assumes "2 \<le> length probs"
  defines "s \<equiv> rev (sort probs)"
  shows "\<exists>k. k + 1 < length probs \<and>
           (\<forall>j. j + 1 < length probs \<longrightarrow>
              f64_sub (s ! j) (s ! (j + 1)) \<le> f64_sub (s ! k) (s ! (k + 1))) \<and>
           (\<forall>j < k. f64_sub (s ! j) (s ! (j + 1)) < f64_sub (s ! k) (s ! (k + 1))) \<and>
           mcut_threshold probs = Inr (f64_div (f64_add (s ! k) (s ! (k + 1))) 2)"
proof -
  let ?difs = "map2 f64_sub (butlast s) (tl s)"
  have len: "length s = length probs" by (simp add: s_def)
  have ld: "length ?difs = length probs - 1" using len by simp
  have nth: "?difs ! j = f64_sub (s ! j) (s ! (j + 1))" if "j + 1 < length probs" for j
    using that len by (simp add: nth_butlast nth_tl)
  from assms ld have "?difs \<noteq> []"
    by (metis One_nat_def Suc_1 Suc_le_lessD length_0_conv less_numeral_extra(3) zero_less_diff)
  then obtain k where k: "argmax ?difs = Inr k"
    by (cases ?difs) (auto simp: argmax_def)
  from argmax_first_max[OF k] have
    a: "k < length ?difs" "\<forall>j < length ?difs. ?difs ! j \<le> ?difs ! k" "\<forall>j < k. ?difs ! j < ?difs ! k"
    by blast+
  from a(1) ld have k1: "k + 1 < length probs" by simp
  have "\<forall>j. j + 1 < length probs \<longrightarrow>
          f64_sub (s ! j) (s ! (j + 1)) \<le> f64_sub (s ! k) (s ! (k + 1))"
  proof (intro allI impI)
    fix j assume j: "j + 1 < length probs"
    then have "j < length ?difs" using ld by simp
    with a(2) have "?difs ! j \<le> ?difs ! k" by blast
    then show "f64_sub (s ! j) (s ! (j + 1)) \<le> f64_sub (s ! k) (s ! (k + 1))"
      using nth[OF j] nth[OF k1] by simp
  qed
  moreover have "\<forall>j < k. f64_sub (s ! j) (s ! (j + 1)) < f64_sub (s ! k) (s ! (k + 1))"
  proof (intro allI impI)
    fix j assume j: "j < k"
    then have j1: "j + 1 < length probs" using k1 by simp
    from a(3) j have "?difs ! j < ?difs ! k" by blast
    then show "f64_sub (s ! j) (s ! (j + 1)) < f64_sub (s ! k) (s ! (k + 1))"
      using nth[OF j1] nth[OF k1] by simp
  qed
  moreover have "mcut_threshold probs = Inr (f64_div (f64_add (s ! k) (s ! (k + 1))) 2)"
    using k by (simp add: mcut_threshold_def sorted_probs_eq s_def [symmetric] del: sort_key_simps)
  ultimately show ?thesis using k1 by blast
qed

subsection \<open>Evaluation and decomposition of predict\<close>

lemmas eval_defs = predict_def load_model_def download_model_def load_labels_def
  predict_loaded_def prepare_image_def pad_square_def flatten_white_def resize_def
  np_asarray_def paste_def convert_RGB_def alpha_composite_def Image_new_def
  andthen_def attr_def py_dict_def np_where_def str_replace_def kaomojis_def
  Predictor_init_def LABEL_FILENAME_def MODEL_FILENAME_def format_tags_def
  mcut_threshold_def argsort_def argmax_def Let_def upt_conv_Cons
  f64_add_def f64_sub_def f64_div_def float64_def pow2_def round_half_even_def binade.simps

lemmas eval_stub = eval_defs stub_env_def stub_session_def one_pixel_def table_fixed_def
  preds_fixed_def env_fixed_def env_floor_def env_single_def table_dup_def env_dup_def
  loaded_fixed_def env_broken_def env_offline_def
  env_longer_def env_shorter_def env_past_end_def loaded_def tall_image_def
  table_mixed_def env_mixed_def env_low_def

text \<open>
  The rounding at some numbers: three decimal literals, a number that is a double already,
  and two numbers halfway between two doubles, which go to the one with the even last bit.
\<close>

lemma float64_values:
  "float64 (1 / 10) = 3602879701896397 / 2 ^ 55"
  "float64 (15 / 100) = 5404319552844595 / 2 ^ 55"
  "float64 (3 / 10) = 5404319552844595 / 2 ^ 54"
  "float64 (3 / 4) = 3 / 4"
  "float64 (1 + 1 / 2 ^ 53) = 1"
  "float64 (1 + 3 / 2 ^ 53) = 1 + 1 / 2 ^ 51"
  by (simp_all add: float64_def pow2_def round_half_even_def binade.simps Let_def)

lemma predict_load_ok:
  "load_model env repo self = (io, None, self') \<Longrightarrow>
     predict env im repo gt gm ct cm self = (predict_loaded env im gt gm ct cm self', self')"
  by (simp add: predict_def)

lemma predict_loaded_eq:
  assumes "prepare_image env self im = Inr tensor" "model self = Some m"
    "run m tensor = Inr preds" "tag_names self = Some names" "rating_indexes self = Some ridx"
    "general_indexes self = Some gidx" "character_indexes self = Some cidx"
  shows "predict_loaded env im gt gm ct cm self =
     andthen (pick (zip names preds) ridx) (\<lambda>rn.
     andthen (pick (zip names preds) gidx) (\<lambda>gn.
     andthen (if gm then mcut_threshold (map snd gn) else Inr gt) (\<lambda>gth.
     andthen (pick (zip names preds) cidx) (\<lambda>cn.
     andthen (if cm then andthen (mcut_threshold (map snd cn)) (\<lambda>t. Inr (max (float64 (15 / 100)) t))
              else Inr ct) (\<lambda>cth.
     Inr (format_tags (py_dict (filter (\<lambda>x. gth < snd x) gn)), py_dict rn,
          py_dict (filter (\<lambda>x. cth < snd x) cn),
          py_dict (filter (\<lambda>x. gth < snd x) gn)))))))"
  by (simp add: predict_loaded_def assms andthen_def attr_def Let_def)

lemma predict_loaded_Inr_D:
  assumes "predict_loaded env im gt gm ct cm self = Inr out"
  shows "\<exists>tensor m preds names ridx gidx cidx.
           prepare_image env self im = Inr tensor \<and> model self = Some m \<and>
           run m tensor = Inr preds \<and> tag_names self = Some names \<and>
           rating_indexes self = Some ridx \<and> general_indexes self = Some gidx \<and>
           character_indexes self = Some cidx"
  using assms unfolding predict_loaded_def Let_def andthen_Inr_iff attr_Inr_iff by blast

lemma predict_Inr_D:
  assumes "fst (predict env im repo gt gm ct cm self) = Inr out"
  shows "\<exists>io self'. load_model env repo self = (io, None, self') \<and>
           snd (predict env im repo gt gm ct cm self) = self' \<and>
           predict_loaded env im gt gm ct cm self' = Inr out"
proof -
  obtain io err self' where l: "load_model env repo self = (io, err, self')"
    by (cases "load_model env repo self") auto
  show ?thesis
  proof (cases err)
    case None
    with l assms show ?thesis by (simp add: predict_def)
  next
    case (Some e)
    with l assms show ?thesis by (simp add: predict_def)
  qed
qed

lemma map_of_fold_update:
  "map_of (fold (\<lambda>kv d. AList.update (fst kv) (snd kv) d) xs d) = map_of (rev xs @ d)"
  by (induction xs arbitrary: d) (auto simp: update_conv' map_add_def fun_eq_iff split: option.splits)

lemma map_of_py_dict: "map_of (py_dict xs) = map_of (rev xs)"
  by (simp add: py_dict_def map_of_fold_update)

lemma distinct_fold_update:
  "distinct (map fst d) \<Longrightarrow> distinct (map fst (fold (\<lambda>kv d. AList.update (fst kv) (snd kv) d) xs d))"
  by (induction xs arbitrary: d) (simp_all add: distinct_update)

lemma distinct_py_dict: "distinct (map fst (py_dict xs))"
  by (simp add: py_dict_def distinct_fold_update)

lemma keys_fold_update:
  "fst ` set (fold (\<lambda>kv d. AList.update (fst kv) (snd kv) d) xs d) = fst ` set xs \<union> fst ` set d"
  by (induction xs arbitrary: d) (auto simp: dom_update)

lemma keys_py_dict: "fst ` set (py_dict xs) = fst ` set xs"
  by (simp add: py_dict_def keys_fold_update)

lemma set_py_dict_subset: "set (py_dict xs) \<subseteq> set xs"
proof
  fix kv assume "kv \<in> set (py_dict xs)"
  then have "map_of (py_dict xs) (fst kv) = Some (snd kv)"
    using distinct_py_dict[of xs] by simp
  then have "map_of (rev xs) (fst kv) = Some (snd kv)" by (simp add: map_of_py_dict)
  then have "(fst kv, snd kv) \<in> set (rev xs)" by (rule map_of_SomeD)
  then show "kv \<in> set xs" by simp
qed

lemma pick_zip_Inr:
  assumes "pick (zip names preds) idx = Inr r"
  shows "(\<forall>i \<in> set idx. i < length names \<and> i < length preds) \<and>
         r = map (\<lambda>i. (names ! i, preds ! i)) idx"
  using assms by (auto simp: pick_Inr_iff)

lemma filter_pairs:
  "filter (\<lambda>x. t < snd x) (map (\<lambda>i. (names ! i, preds ! i)) idx) =
   map (\<lambda>i. (names ! i, preds ! i)) (filter (\<lambda>i. t < preds ! i) idx)"
  by (induction idx) auto

lemma predict_Inr_full:
  assumes "fst (predict env im repo gt gm ct cm self) = Inr (s, rating, cres, gres)"
  shows "\<exists>self' names preds ridx gidx cidx m tensor gth cth.
     self' = snd (predict env im repo gt gm ct cm self) \<and>
     tag_names self' = Some names \<and> rating_indexes self' = Some ridx \<and>
     general_indexes self' = Some gidx \<and>
     character_indexes self' = Some cidx \<and> model self' = Some m \<and>
     prepare_image env self' im = Inr tensor \<and> run m tensor = Inr preds \<and>
     (\<forall>i \<in> set (ridx @ gidx @ cidx). i < length names \<and> i < length preds) \<and>
     (if gm then mcut_threshold (map (\<lambda>i. preds ! i) gidx) else Inr gt) = Inr gth \<and>
     (if cm then andthen (mcut_threshold (map (\<lambda>i. preds ! i) cidx)) (\<lambda>t. Inr (max (float64 (15 / 100)) t))
      else Inr ct) = Inr cth \<and>
     rating = py_dict (map (\<lambda>i. (names ! i, preds ! i)) ridx) \<and>
     gres = py_dict (map (\<lambda>i. (names ! i, preds ! i)) (filter (\<lambda>i. gth < preds ! i) gidx)) \<and>
     cres = py_dict (map (\<lambda>i. (names ! i, preds ! i)) (filter (\<lambda>i. cth < preds ! i) cidx)) \<and>
     s = format_tags gres"
proof -
  from predict_Inr_D[OF assms] obtain io self' where
    l: "load_model env repo self = (io, None, self')"
    and s: "snd (predict env im repo gt gm ct cm self) = self'"
    and p: "predict_loaded env im gt gm ct cm self' = Inr (s, rating, cres, gres)"
    by blast
  from predict_loaded_Inr_D[OF p] obtain tensor m preds names ridx gidx cidx where
    f: "prepare_image env self' im = Inr tensor" "model self' = Some m"
       "run m tensor = Inr preds" "tag_names self' = Some names"
       "rating_indexes self' = Some ridx" "general_indexes self' = Some gidx"
       "character_indexes self' = Some cidx"
    by blast
  from p obtain rn gn gth cn cth where
    r: "pick (zip names preds) ridx = Inr rn"
    and g: "pick (zip names preds) gidx = Inr gn"
    and gt: "(if gm then mcut_threshold (map snd gn) else Inr gt) = Inr gth"
    and c: "pick (zip names preds) cidx = Inr cn"
    and ct: "(if cm then andthen (mcut_threshold (map snd cn)) (\<lambda>t. Inr (max (float64 (15 / 100)) t))
              else Inr ct) = Inr cth"
    and out: "(s, rating, cres, gres) =
       (format_tags (py_dict (filter (\<lambda>x. gth < snd x) gn)), py_dict rn,
        py_dict (filter (\<lambda>x. cth < snd x) cn), py_dict (filter (\<lambda>x. gth < snd x) gn))"
    unfolding predict_loaded_eq[OF f] andthen_Inr_iff by (metis sum.inject(2))
  note R = pick_zip_Inr[OF r] and G = pick_zip_Inr[OF g] and C = pick_zip_Inr[OF c]
  have rng: "\<forall>i \<in> set (ridx @ gidx @ cidx). i < length names \<and> i < length preds"
    using R G C by auto
  have gt': "(if gm then mcut_threshold (map (\<lambda>i. preds ! i) gidx) else Inr gt) = Inr gth"
    using gt G by (auto simp: comp_def split: if_splits)
  have ct': "(if cm then andthen (mcut_threshold (map (\<lambda>i. preds ! i) cidx)) (\<lambda>t. Inr (max (float64 (15 / 100)) t))
      else Inr ct) = Inr cth"
    using ct C by (auto simp: comp_def split: if_splits)
  have "rating = py_dict (map (\<lambda>i. (names ! i, preds ! i)) ridx)"
    using out R by simp
  moreover have "gres = py_dict (map (\<lambda>i. (names ! i, preds ! i)) (filter (\<lambda>i. gth < preds ! i) gidx))"
    using out G by (simp add: filter_pairs)
  moreover have "cres = py_dict (map (\<lambda>i. (names ! i, preds ! i)) (filter (\<lambda>i. cth < preds ! i) cidx))"
    using out C by (simp add: filter_pairs)
  moreover have "s = format_tags gres" using out by simp
  ultimately show ?thesis using s f rng gt' ct' by blast
qed

lemma pick_zip_eq:
  "pick (zip names preds) idx =
     (if \<forall>i \<in> set idx. i < min (length names) (length preds)
      then Inr (map (\<lambda>i. (names ! i, preds ! i)) idx) else Inl IndexError)"
  by (auto simp: pick_eq)

subsection \<open>Sorting and escaping\<close>

lemma escape_parens:
  "str_replace (CHR '')'') [CHR 0x5C, CHR '')''] (str_replace (CHR ''('') [CHR 0x5C, CHR ''(''] s) =
   concat (map (\<lambda>c. if c = CHR ''('' \<or> c = CHR '')'' then [CHR 0x5C, c] else [c]) s)"
  by (induction s) (auto simp: str_replace_def)

lemma sorted_desc_sort_key:
  "sorted_wrt (\<lambda>a b. b \<le> a) (map snd (sort_key (\<lambda>x. - snd x) (xs :: ('a \<times> real) list)))"
proof -
  have "sorted (map (\<lambda>x. - snd x) (sort_key (\<lambda>x. - snd x) xs))" by (rule sorted_sort_key)
  then have "sorted_wrt (\<lambda>a b. - snd a \<le> - snd b) (sort_key (\<lambda>x. - snd x) xs)"
    by (simp add: sorted_wrt_map)
  then show ?thesis by (simp add: sorted_wrt_map)
qed

lemma stable_desc_sort_key:
  "filter (\<lambda>x. snd x = c) (sort_key (\<lambda>x. - snd x) (xs :: ('a \<times> real) list)) =
   filter (\<lambda>x. snd x = c) xs"
  using sort_key_stable[of "\<lambda>x. - snd x" "- c" xs] by simp

subsection \<open>Dicts with repeated keys\<close>







subsection \<open>Loading\<close>

lemma load_model_hit:
  "last_loaded_repo self = Some repo \<Longrightarrow> load_model env repo self = ([], None, self)"
  by (simp add: load_model_def)

lemma load_model_miss_ok:
  assumes "last_loaded_repo self \<noteq> Some repo" "load_model env repo self = (io, None, self')"
  shows "\<exists>csv_path model_path df names ridx gidx cidx m d0 height width d3.
     hf_hub_download env repo LABEL_FILENAME = Inr csv_path \<and>
     hf_hub_download env repo MODEL_FILENAME = Inr model_path \<and>
     read_csv env csv_path = Inr df \<and> load_labels df = Inr (names, ridx, gidx, cidx) \<and>
     InferenceSession env model_path = Inr m \<and> input_shape m = [d0, height, width, d3] \<and>
     io = [Download repo LABEL_FILENAME, Download repo MODEL_FILENAME, ReadCsv csv_path,
           NewSession model_path] \<and>
     self' = self\<lparr>tag_names := Some names, rating_indexes := Some ridx,
                   general_indexes := Some gidx, character_indexes := Some cidx,
                   model_target_size := Some height, last_loaded_repo := Some repo,
                   model := Some m\<rparr>"
  using assms
  by (auto simp: load_model_def download_model_def Let_def
           split: sum.splits prod.splits list.splits if_splits)

lemma load_model_ok_repo:
  assumes "load_model env repo self = (io, None, self')"
  shows "last_loaded_repo self' = Some repo"
proof (cases "last_loaded_repo self = Some repo")
  case True
  with assms show ?thesis by (simp add: load_model_def)
next
  case False
  from load_model_miss_ok[OF False assms] show ?thesis by auto
qed

lemma load_model_fail_keeps:
  assumes "load_model env repo self = (io, Some e, self')"
  shows "model self' = model self \<and> model_target_size self' = model_target_size self \<and>
         last_loaded_repo self' = last_loaded_repo self"
  using assms
  by (auto simp: load_model_def download_model_def Let_def
           split: sum.splits prod.splits list.splits if_splits)

lemma load_model_fetch_fail:
  assumes "load_model env repo self = (io, err, self')" "snd (download_model env repo) = Inl e"
    "last_loaded_repo self \<noteq> Some repo"
  shows "err = Some e \<and> self' = self"
  using assms
  by (auto simp: load_model_def Let_def split: sum.splits prod.splits if_splits)

lemma load_model_read_fail:
  assumes "load_model env repo self = (io, err, self')"
    "snd (download_model env repo) = Inr (csv_path, model_path)"
    "read_csv env csv_path = Inl e" "last_loaded_repo self \<noteq> Some repo"
  shows "err = Some e \<and> self' = self"
  using assms
  by (auto simp: load_model_def Let_def split: sum.splits prod.splits if_splits)

lemma load_model_labels_fail:
  assumes "load_model env repo self = (io, err, self')"
    "snd (download_model env repo) = Inr (csv_path, model_path)"
    "read_csv env csv_path = Inr df" "load_labels df = Inl e"
    "last_loaded_repo self \<noteq> Some repo"
  shows "err = Some e \<and> self' = self"
  using assms
  by (auto simp: load_model_def Let_def split: sum.splits prod.splits if_splits)

lemma load_model_fail_miss:
  "load_model env repo self = (io, Some e, self') \<Longrightarrow> last_loaded_repo self \<noteq> Some repo"
  by (auto simp: load_model_def)

subsection \<open>Images and tensors\<close>

lemma im_size_flatten_white: "im_size (flatten_white env im) = im_size im"
  by (simp add: flatten_white_def convert_RGB_def alpha_composite_def Image_new_def)

lemma flatten_white_bicubic: "flatten_white (env\<lparr>bicubic := f\<rparr>) im = flatten_white env im"
  by (simp add: flatten_white_def convert_RGB_def alpha_composite_def Image_new_def cong: if_cong)

lemma im_size_pad_square:
  "im_size (pad_square im) = (max (fst (im_size im)) (snd (im_size im)),
                              max (fst (im_size im)) (snd (im_size im)))"
  by (simp add: pad_square_def paste_def Image_new_def Let_def)

lemma getpixel_pad_square:
  "getpixel (pad_square im) (x, y) =
     (let w = fst (im_size im); h = snd (im_size im); d = max w h
      in if (d - w) div 2 \<le> x \<and> x < (d - w) div 2 + w \<and> (d - h) div 2 \<le> y \<and> y < (d - h) div 2 + h
         then getpixel im (x - (d - w) div 2, y - (d - h) div 2)
         else (255, 255, 255))"
  by (simp add: pad_square_def paste_def Image_new_def Let_def)

lemma unat_byte_le: "unat (c :: 8 word) \<le> 255"
proof -
  have "unat c < 2 ^ LENGTH(8)" by (rule unsigned_less)
  then show ?thesis by simp
qed

lemma prepare_image_eq:
  assumes "model_target_size self = Some S" "0 < S"
  shows "prepare_image env self im =
     Inr [map (map rev) (np_asarray
       (if max (fst (im_size im)) (snd (im_size im)) = S
        then pad_square (flatten_white env im)
        else \<lparr>im_size = (S, S),
              getpixel = bicubic env (S, S) (pad_square (flatten_white env im))\<rparr>))]"
  using assms
  by (simp add: prepare_image_def pad_square_def flatten_white_def Let_def andthen_def
        resize_def convert_RGB_def alpha_composite_def Image_new_def)

lemma tensor_shape:
  assumes "im_size final = (S, S)" "t = map (map rev) (np_asarray final)"
  shows "length t = S \<and> (\<forall>row \<in> set t. length row = S \<and> (\<forall>px \<in> set row. length px = 3))"
  using assms by (auto simp: np_asarray_def split: prod.splits)

lemma tensor_nth:
  assumes "im_size final = (S, S)" "t = map (map rev) (np_asarray final)" "x < S" "y < S"
  shows "t ! y ! x =
     (case getpixel final (x, y) of (r, g, b) \<Rightarrow> [real (unat b), real (unat g), real (unat r)])"
  using assms by (simp add: np_asarray_def split: prod.splits)

lemma tensor_bytes:
  assumes "im_size final = (S, S)" "t = map (map rev) (np_asarray final)" "x < S" "y < S" "c < 3"
  shows "\<exists>n \<le> 255. t ! y ! x ! c = real n"
proof -
  obtain r g b where p: "getpixel final (x, y) = (r, g, b)" by (cases "getpixel final (x, y)") auto
  have e: "t ! y ! x = [real (unat b), real (unat g), real (unat r)]"
    using tensor_nth[OF assms(1-4)] p by simp
  from assms(5) consider "c = 0" | "c = 1" | "c = 2" by linarith
  then show ?thesis
  proof cases
    case 1 then show ?thesis using e unat_byte_le[of b] by auto
  next
    case 2 then show ?thesis using e unat_byte_le[of g] by auto
  next
    case 3 then show ?thesis using e unat_byte_le[of r] by (auto simp: numeral_2_eq_2)
  qed
qed

subsection \<open>Maximum cut thresholding\<close>

text \<open>
  Claim C3. For a vector of at least two probabilities, \<open>mcut_threshold\<close> returns
  the sum of the two neighbours \<open>s ! k\<close> and \<open>s ! (k + 1)\<close> of the vector \<open>s\<close> sorted in
  descending order, divided by 2, where \<open>k\<close> is the first position at which the
  difference of neighbours is greatest; the difference, the sum and the quotient are the
  float64 operations of the source. For the doubles 0.9, 0.6, 0.5, 0.1 it returns the
  double 0.3, and the confidences strictly greater than it are 0.9, 0.6 and 0.5. The
  differences are compared as the source has them, rounded: in the last vector below the
  first and the third difference round to the same double, so the first position is taken.
\<close>

theorem mcut_threshold_largest_gap:
  "(2 \<le> length probs \<and> (\<forall>p \<in> set probs. 0 \<le> p \<and> p \<le> 1) \<longrightarrow>
      (\<exists>s k. mset s = mset probs \<and> sorted (rev s) \<and> k + 1 < length s \<and>
         (\<forall>j. j + 1 < length s \<longrightarrow>
            f64_sub (s ! j) (s ! (j + 1)) \<le> f64_sub (s ! k) (s ! (k + 1))) \<and>
         (\<forall>j < k. f64_sub (s ! j) (s ! (j + 1)) < f64_sub (s ! k) (s ! (k + 1))) \<and>
         mcut_threshold probs = Inr (f64_div (f64_add (s ! k) (s ! (k + 1))) 2))) \<and>
   mcut_threshold (map float64 [9 / 10, 6 / 10, 5 / 10, 1 / 10]) = Inr (float64 (3 / 10)) \<and>
   filter (\<lambda>p. p > float64 (3 / 10)) (map float64 [9 / 10, 6 / 10, 5 / 10, 1 / 10]) =
     map float64 [9 / 10, 6 / 10, 5 / 10] \<and>
   mcut_threshold [3 / 4, 3 / 8 + 1 / 2 ^ 54, 3 / 8, 3 / 2 ^ 56] = Inr (9 / 16)"
proof (intro conjI impI)
  assume "2 \<le> length probs \<and> (\<forall>p \<in> set probs. 0 \<le> p \<and> p \<le> 1)"
  then have len: "2 \<le> length probs" by blast
  from mcut_threshold_long[OF len] obtain k where
    "k + 1 < length probs \<and>
       (\<forall>j. j + 1 < length probs \<longrightarrow>
          f64_sub (rev (sort probs) ! j) (rev (sort probs) ! (j + 1))
            \<le> f64_sub (rev (sort probs) ! k) (rev (sort probs) ! (k + 1))) \<and>
       (\<forall>j < k. f64_sub (rev (sort probs) ! j) (rev (sort probs) ! (j + 1))
            < f64_sub (rev (sort probs) ! k) (rev (sort probs) ! (k + 1))) \<and>
       mcut_threshold probs =
         Inr (f64_div (f64_add (rev (sort probs) ! k) (rev (sort probs) ! (k + 1))) 2)"
    by blast
  moreover have "mset (rev (sort probs)) = mset probs" "sorted (rev (rev (sort probs)))"
    "length (rev (sort probs)) = length probs" by simp_all
  ultimately show "\<exists>s k. mset s = mset probs \<and> sorted (rev s) \<and> k + 1 < length s \<and>
         (\<forall>j. j + 1 < length s \<longrightarrow>
            f64_sub (s ! j) (s ! (j + 1)) \<le> f64_sub (s ! k) (s ! (k + 1))) \<and>
         (\<forall>j < k. f64_sub (s ! j) (s ! (j + 1)) < f64_sub (s ! k) (s ! (k + 1))) \<and>
         mcut_threshold probs = Inr (f64_div (f64_add (s ! k) (s ! (k + 1))) 2)"
    by metis
next
  show "mcut_threshold (map float64 [9 / 10, 6 / 10, 5 / 10, 1 / 10]) = Inr (float64 (3 / 10))"
    by (simp add: eval_defs)
next
  show "filter (\<lambda>p. p > float64 (3 / 10)) (map float64 [9 / 10, 6 / 10, 5 / 10, 1 / 10]) =
     map float64 [9 / 10, 6 / 10, 5 / 10]"
    by (simp add: eval_defs)
next
  show "mcut_threshold [3 / 4, 3 / 8 + 1 / 2 ^ 54, 3 / 8, 3 / 2 ^ 56] = Inr (9 / 16)"
    by (simp add: eval_defs)
qed

theorem mcut_threshold_largest_gap_witness:
  "2 \<le> length [3 / 4, 1 / 8, 7 / 8 :: real] \<and>
   list_all (\<lambda>p. 0 \<le> p \<and> p \<le> 1) [3 / 4, 1 / 8, 7 / 8 :: real] \<and>
   mcut_threshold [3 / 4, 1 / 8, 7 / 8] = Inr (7 / 16) \<and>
   (\<exists>s k. mset s = mset [3 / 4, 1 / 8, 7 / 8 :: real] \<and> sorted (rev s) \<and> k + 1 < length s \<and>
      (\<forall>j. j + 1 < length s \<longrightarrow>
         f64_sub (s ! j) (s ! (j + 1)) \<le> f64_sub (s ! k) (s ! (k + 1))) \<and>
      (\<forall>j < k. f64_sub (s ! j) (s ! (j + 1)) < f64_sub (s ! k) (s ! (k + 1))) \<and>
      mcut_threshold [3 / 4, 1 / 8, 7 / 8] = Inr (f64_div (f64_add (s ! k) (s ! (k + 1))) 2))"
proof -
  have l: "2 \<le> length [3 / 4, 1 / 8, 7 / 8 :: real]" by simp
  have r: "\<forall>p \<in> set [3 / 4, 1 / 8, 7 / 8 :: real]. 0 \<le> p \<and> p \<le> 1" by simp
  have r': "list_all (\<lambda>p. 0 \<le> p \<and> p \<le> 1) [3 / 4, 1 / 8, 7 / 8 :: real]" by simp
  have e: "mcut_threshold [3 / 4, 1 / 8, 7 / 8] = Inr (7 / 16)" by (simp add: eval_defs)
  note T = mcut_threshold_largest_gap[of "[3 / 4, 1 / 8, 7 / 8]", THEN conjunct1, THEN mp,
      OF conjI[OF l r]]
  show ?thesis by (intro conjI l r' e T)
qed

subsection \<open>Fixed thresholds\<close>

text \<open>
  Claim C4. The threshold of each group is fixed or adaptive on its own. With MCut off
  for the general group, whatever the flag of the character group, whenever \<open>predict\<close>
  returns, the general mapping is the dict of the general labels whose confidence is
  strictly greater than the general threshold: every confidence in it exceeds the
  threshold, so a label whose confidence equals the threshold is rejected, and every
  general label above the threshold has its name in it. The same holds of the character
  mapping and the character threshold with MCut off for the character group, whatever the
  flag of the general group.
\<close>

theorem fixed_threshold_strict:
  "(fst (predict env im repo gt False ct cm self) = Inr (s, rating, cres, gres) \<longrightarrow>
      (\<exists>self' names preds gidx m tensor.
         self' = snd (predict env im repo gt False ct cm self) \<and>
         tag_names self' = Some names \<and> general_indexes self' = Some gidx \<and>
         model self' = Some m \<and> prepare_image env self' im = Inr tensor \<and>
         run m tensor = Inr preds \<and>
         gres = py_dict (map (\<lambda>i. (names ! i, preds ! i)) (filter (\<lambda>i. gt < preds ! i) gidx)) \<and>
         (\<forall>n p. (n, p) \<in> set gres \<longrightarrow> gt < p) \<and>
         (\<forall>i \<in> set gidx. gt < preds ! i \<longrightarrow> names ! i \<in> fst ` set gres))) \<and>
   (fst (predict env im repo gt gm ct False self) = Inr (s, rating, cres, gres) \<longrightarrow>
      (\<exists>self' names preds cidx m tensor.
         self' = snd (predict env im repo gt gm ct False self) \<and>
         tag_names self' = Some names \<and> character_indexes self' = Some cidx \<and>
         model self' = Some m \<and> prepare_image env self' im = Inr tensor \<and>
         run m tensor = Inr preds \<and>
         cres = py_dict (map (\<lambda>i. (names ! i, preds ! i)) (filter (\<lambda>i. ct < preds ! i) cidx)) \<and>
         (\<forall>n p. (n, p) \<in> set cres \<longrightarrow> ct < p) \<and>
         (\<forall>i \<in> set cidx. ct < preds ! i \<longrightarrow> names ! i \<in> fst ` set cres)))"
proof (intro conjI impI)
  assume a: "fst (predict env im repo gt False ct cm self) = Inr (s, rating, cres, gres)"
  from predict_Inr_full[OF a] obtain self' names preds gidx m tensor where
    f: "self' = snd (predict env im repo gt False ct cm self)"
       "tag_names self' = Some names" "general_indexes self' = Some gidx"
       "model self' = Some m" "prepare_image env self' im = Inr tensor"
       "run m tensor = Inr preds"
    and g: "gres = py_dict (map (\<lambda>i. (names ! i, preds ! i)) (filter (\<lambda>i. gt < preds ! i) gidx))"
    by auto
  have g1: "\<forall>n p. (n, p) \<in> set gres \<longrightarrow> gt < p"
    using set_py_dict_subset[of "map (\<lambda>i. (names ! i, preds ! i)) (filter (\<lambda>i. gt < preds ! i) gidx)"]
    unfolding g by auto
  have g2: "\<forall>i \<in> set gidx. gt < preds ! i \<longrightarrow> names ! i \<in> fst ` set gres"
    unfolding g keys_py_dict by force
  from f g g1 g2 show "\<exists>self' names preds gidx m tensor.
         self' = snd (predict env im repo gt False ct cm self) \<and>
         tag_names self' = Some names \<and> general_indexes self' = Some gidx \<and>
         model self' = Some m \<and> prepare_image env self' im = Inr tensor \<and>
         run m tensor = Inr preds \<and>
         gres = py_dict (map (\<lambda>i. (names ! i, preds ! i)) (filter (\<lambda>i. gt < preds ! i) gidx)) \<and>
         (\<forall>n p. (n, p) \<in> set gres \<longrightarrow> gt < p) \<and>
         (\<forall>i \<in> set gidx. gt < preds ! i \<longrightarrow> names ! i \<in> fst ` set gres)"
    by blast
next
  assume a: "fst (predict env im repo gt gm ct False self) = Inr (s, rating, cres, gres)"
  from predict_Inr_full[OF a] obtain self' names preds cidx m tensor where
    f: "self' = snd (predict env im repo gt gm ct False self)"
       "tag_names self' = Some names" "character_indexes self' = Some cidx"
       "model self' = Some m" "prepare_image env self' im = Inr tensor"
       "run m tensor = Inr preds"
    and c: "cres = py_dict (map (\<lambda>i. (names ! i, preds ! i)) (filter (\<lambda>i. ct < preds ! i) cidx))"
    by auto
  have c1: "\<forall>n p. (n, p) \<in> set cres \<longrightarrow> ct < p"
    using set_py_dict_subset[of "map (\<lambda>i. (names ! i, preds ! i)) (filter (\<lambda>i. ct < preds ! i) cidx)"]
    unfolding c by auto
  have c2: "\<forall>i \<in> set cidx. ct < preds ! i \<longrightarrow> names ! i \<in> fst ` set cres"
    unfolding c keys_py_dict by force
  from f c c1 c2 show "\<exists>self' names preds cidx m tensor.
         self' = snd (predict env im repo gt gm ct False self) \<and>
         tag_names self' = Some names \<and> character_indexes self' = Some cidx \<and>
         model self' = Some m \<and> prepare_image env self' im = Inr tensor \<and>
         run m tensor = Inr preds \<and>
         cres = py_dict (map (\<lambda>i. (names ! i, preds ! i)) (filter (\<lambda>i. ct < preds ! i) cidx)) \<and>
         (\<forall>n p. (n, p) \<in> set cres \<longrightarrow> ct < p) \<and>
         (\<forall>i \<in> set cidx. ct < preds ! i \<longrightarrow> names ! i \<in> fst ` set cres)"
    by blast
qed

theorem fixed_threshold_strict_witness:
  "fst (predict env_mixed one_pixel ''m'' (1 / 2) False (1 / 2) True Predictor_init) =
     Inr (format_tags [(''cat (ears)'', 7 / 8), (''smile'', 5 / 8)],
          [(''general'', 3 / 4), (''sensitive'', 1 / 4)],
          [(''marisa'', 3 / 4)],
          [(''cat (ears)'', 7 / 8), (''smile'', 5 / 8)]) \<and>
   (\<exists>self' names preds gidx m tensor.
      self' = snd (predict env_mixed one_pixel ''m'' (1 / 2) False (1 / 2) True Predictor_init) \<and>
      tag_names self' = Some names \<and> general_indexes self' = Some gidx \<and>
      model self' = Some m \<and> prepare_image env_mixed self' one_pixel = Inr tensor \<and>
      run m tensor = Inr preds \<and>
      [(''cat (ears)'', 7 / 8), (''smile'', 5 / 8)] =
        py_dict (map (\<lambda>i. (names ! i, preds ! i)) (filter (\<lambda>i. 1 / 2 < preds ! i) gidx)) \<and>
      (\<forall>n p. (n, p) \<in> set [(''cat (ears)'', 7 / 8), (''smile'', 5 / 8 :: real)] \<longrightarrow> 1 / 2 < p) \<and>
      (\<forall>i \<in> set gidx. 1 / 2 < preds ! i \<longrightarrow>
          names ! i \<in> fst ` set [(''cat (ears)'', 7 / 8), (''smile'', 5 / 8 :: real)])) \<and>
   fst (predict env_mixed one_pixel ''m'' (1 / 2) True (1 / 2) False Predictor_init) =
     Inr (format_tags [(''cat (ears)'', 7 / 8)],
          [(''general'', 3 / 4), (''sensitive'', 1 / 4)],
          [(''marisa'', 3 / 4)],
          [(''cat (ears)'', 7 / 8)]) \<and>
   (\<exists>self' names preds cidx m tensor.
      self' = snd (predict env_mixed one_pixel ''m'' (1 / 2) True (1 / 2) False Predictor_init) \<and>
      tag_names self' = Some names \<and> character_indexes self' = Some cidx \<and>
      model self' = Some m \<and> prepare_image env_mixed self' one_pixel = Inr tensor \<and>
      run m tensor = Inr preds \<and>
      [(''marisa'', 3 / 4)] =
        py_dict (map (\<lambda>i. (names ! i, preds ! i)) (filter (\<lambda>i. 1 / 2 < preds ! i) cidx)) \<and>
      (\<forall>n p. (n, p) \<in> set [(''marisa'', 3 / 4 :: real)] \<longrightarrow> 1 / 2 < p) \<and>
      (\<forall>i \<in> set cidx. 1 / 2 < preds ! i \<longrightarrow> names ! i \<in> fst ` set [(''marisa'', 3 / 4 :: real)]))"
proof -
  have h1: "fst (predict env_mixed one_pixel ''m'' (1 / 2) False (1 / 2) True Predictor_init) =
     Inr (format_tags [(''cat (ears)'', 7 / 8), (''smile'', 5 / 8)],
          [(''general'', 3 / 4), (''sensitive'', 1 / 4)],
          [(''marisa'', 3 / 4)],
          [(''cat (ears)'', 7 / 8), (''smile'', 5 / 8)])"
    by (simp add: eval_stub)
  have h2: "fst (predict env_mixed one_pixel ''m'' (1 / 2) True (1 / 2) False Predictor_init) =
     Inr (format_tags [(''cat (ears)'', 7 / 8)],
          [(''general'', 3 / 4), (''sensitive'', 1 / 4)],
          [(''marisa'', 3 / 4)],
          [(''cat (ears)'', 7 / 8)])"
    by (simp add: eval_stub)
  note c1 = fixed_threshold_strict[THEN conjunct1, THEN mp, OF h1]
  note c2 = fixed_threshold_strict[THEN conjunct2, THEN mp, OF h2]
  show ?thesis by (intro conjI h1 c1 h2 c2)
qed

subsection \<open>The floor of the character threshold\<close>

text \<open>
  Claim C5. With MCut on for the character group, whatever the flag of the general group,
  whenever \<open>predict\<close> returns, the character labels are cut at \<open>max 0.15 t\<close>, where \<open>t\<close> is
  the MCut threshold of the character confidences and 0.15 is the double of that literal.
  With MCut on for the general group, whatever the flag of the character group, the
  general labels are cut at the MCut threshold of the general confidences itself, with no
  floor. A computed 0.05 becomes 0.15.
\<close>

theorem character_mcut_floor:
  "(fst (predict env im repo gt gm ct True self) = Inr (s, rating, cres, gres) \<longrightarrow>
      (\<exists>self' names preds cidx m tensor t.
         self' = snd (predict env im repo gt gm ct True self) \<and>
         tag_names self' = Some names \<and> character_indexes self' = Some cidx \<and>
         model self' = Some m \<and> prepare_image env self' im = Inr tensor \<and>
         run m tensor = Inr preds \<and>
         mcut_threshold (map (\<lambda>i. preds ! i) cidx) = Inr t \<and>
         cres = py_dict (map (\<lambda>i. (names ! i, preds ! i))
                  (filter (\<lambda>i. max (float64 (15 / 100)) t < preds ! i) cidx)))) \<and>
   (fst (predict env im repo gt True ct cm self) = Inr (s, rating, cres, gres) \<longrightarrow>
      (\<exists>self' names preds gidx m tensor tg.
         self' = snd (predict env im repo gt True ct cm self) \<and>
         tag_names self' = Some names \<and> general_indexes self' = Some gidx \<and>
         model self' = Some m \<and> prepare_image env self' im = Inr tensor \<and>
         run m tensor = Inr preds \<and>
         mcut_threshold (map (\<lambda>i. preds ! i) gidx) = Inr tg \<and>
         gres = py_dict (map (\<lambda>i. (names ! i, preds ! i)) (filter (\<lambda>i. tg < preds ! i) gidx)))) \<and>
   max (float64 (15 / 100)) (float64 (5 / 100)) = float64 (15 / 100)"
proof (intro conjI impI)
  assume a: "fst (predict env im repo gt gm ct True self) = Inr (s, rating, cres, gres)"
  from predict_Inr_full[OF a] obtain self' names preds cidx m tensor cth where
    f: "self' = snd (predict env im repo gt gm ct True self)"
       "tag_names self' = Some names" "character_indexes self' = Some cidx"
       "model self' = Some m" "prepare_image env self' im = Inr tensor"
       "run m tensor = Inr preds"
    and cth: "andthen (mcut_threshold (map (\<lambda>i. preds ! i) cidx))
                (\<lambda>t. Inr (max (float64 (15 / 100)) t)) = Inr cth"
    and c: "cres = py_dict (map (\<lambda>i. (names ! i, preds ! i)) (filter (\<lambda>i. cth < preds ! i) cidx))"
    by auto
  from cth obtain t where t: "mcut_threshold (map (\<lambda>i. preds ! i) cidx) = Inr t"
    "cth = max (float64 (15 / 100)) t"
    unfolding andthen_Inr_iff by auto
  from f t c show "\<exists>self' names preds cidx m tensor t.
         self' = snd (predict env im repo gt gm ct True self) \<and>
         tag_names self' = Some names \<and> character_indexes self' = Some cidx \<and>
         model self' = Some m \<and> prepare_image env self' im = Inr tensor \<and>
         run m tensor = Inr preds \<and>
         mcut_threshold (map (\<lambda>i. preds ! i) cidx) = Inr t \<and>
         cres = py_dict (map (\<lambda>i. (names ! i, preds ! i))
                  (filter (\<lambda>i. max (float64 (15 / 100)) t < preds ! i) cidx))"
    by blast
next
  assume a: "fst (predict env im repo gt True ct cm self) = Inr (s, rating, cres, gres)"
  from predict_Inr_full[OF a] obtain self' names preds gidx m tensor gth where
    f: "self' = snd (predict env im repo gt True ct cm self)"
       "tag_names self' = Some names" "general_indexes self' = Some gidx"
       "model self' = Some m" "prepare_image env self' im = Inr tensor"
       "run m tensor = Inr preds"
    and gth: "mcut_threshold (map (\<lambda>i. preds ! i) gidx) = Inr gth"
    and g: "gres = py_dict (map (\<lambda>i. (names ! i, preds ! i)) (filter (\<lambda>i. gth < preds ! i) gidx))"
    by auto
  from f gth g show "\<exists>self' names preds gidx m tensor tg.
         self' = snd (predict env im repo gt True ct cm self) \<and>
         tag_names self' = Some names \<and> general_indexes self' = Some gidx \<and>
         model self' = Some m \<and> prepare_image env self' im = Inr tensor \<and>
         run m tensor = Inr preds \<and>
         mcut_threshold (map (\<lambda>i. preds ! i) gidx) = Inr tg \<and>
         gres = py_dict (map (\<lambda>i. (names ! i, preds ! i)) (filter (\<lambda>i. tg < preds ! i) gidx))"
    by blast
next
  show "max (float64 (15 / 100)) (float64 (5 / 100)) = float64 (15 / 100)"
    by (simp add: eval_defs)
qed

theorem character_mcut_floor_witness:
  "fst (predict env_low one_pixel ''m'' (1 / 2) False (1 / 2) True Predictor_init) =
     Inr ([], [(''general'', 3 / 4)], [], []) \<and>
   (\<exists>self' names preds cidx m tensor t.
      self' = snd (predict env_low one_pixel ''m'' (1 / 2) False (1 / 2) True Predictor_init) \<and>
      tag_names self' = Some names \<and> character_indexes self' = Some cidx \<and>
      model self' = Some m \<and> prepare_image env_low self' one_pixel = Inr tensor \<and>
      run m tensor = Inr preds \<and>
      mcut_threshold (map (\<lambda>i. preds ! i) cidx) = Inr t \<and>
      [] = py_dict (map (\<lambda>i. (names ! i, preds ! i))
             (filter (\<lambda>i. max (float64 (15 / 100)) t < preds ! i) cidx))) \<and>
   fst (predict env_low one_pixel ''m'' (1 / 2) True (1 / 16) False Predictor_init) =
     Inr (''1girl'', [(''general'', 3 / 4)], [(''reimu'', 1 / 8)], [(''1girl'', 1 / 8)]) \<and>
   (\<exists>self' names preds gidx m tensor tg.
      self' = snd (predict env_low one_pixel ''m'' (1 / 2) True (1 / 16) False Predictor_init) \<and>
      tag_names self' = Some names \<and> general_indexes self' = Some gidx \<and>
      model self' = Some m \<and> prepare_image env_low self' one_pixel = Inr tensor \<and>
      run m tensor = Inr preds \<and>
      mcut_threshold (map (\<lambda>i. preds ! i) gidx) = Inr tg \<and>
      [(''1girl'', 1 / 8)] =
        py_dict (map (\<lambda>i. (names ! i, preds ! i)) (filter (\<lambda>i. tg < preds ! i) gidx))) \<and>
   fst (predict env_low one_pixel ''m'' (1 / 2) True (1 / 16) True Predictor_init) =
     Inr (''1girl'', [(''general'', 3 / 4)], [], [(''1girl'', 1 / 8)]) \<and>
   mcut_threshold [1 / 8, 0] = Inr (1 / 16) \<and>
   (1 / 16 :: real) < 1 / 8 \<and> 1 / 8 < float64 (15 / 100)"
proof -
  have h1: "fst (predict env_low one_pixel ''m'' (1 / 2) False (1 / 2) True Predictor_init) =
     Inr ([], [(''general'', 3 / 4)], [], [])"
    by (simp add: eval_stub)
  have h2: "fst (predict env_low one_pixel ''m'' (1 / 2) True (1 / 16) False Predictor_init) =
     Inr (''1girl'', [(''general'', 3 / 4)], [(''reimu'', 1 / 8)], [(''1girl'', 1 / 8)])"
    by (simp add: eval_stub)
  have h3: "fst (predict env_low one_pixel ''m'' (1 / 2) True (1 / 16) True Predictor_init) =
     Inr (''1girl'', [(''general'', 3 / 4)], [], [(''1girl'', 1 / 8)])"
    by (simp add: eval_stub)
  have e: "mcut_threshold [1 / 8, 0] = Inr (1 / 16)" by (simp add: eval_defs)
  have o1: "(1 / 16 :: real) < 1 / 8" by simp
  have o2: "1 / 8 < float64 (15 / 100)" by (simp add: eval_defs)
  note c1 = character_mcut_floor[THEN conjunct1, THEN mp, OF h1]
  note c2 = character_mcut_floor[THEN conjunct2, THEN conjunct1, THEN mp, OF h2]
  show ?thesis by (intro conjI h1 c1 h2 c2 h3 e o1 o2)
qed

subsection \<open>MCut on a group of fewer than two labels\<close>

text \<open>
  Claim C9. On a vector of fewer than two elements \<open>mcut_threshold\<close> raises ValueError
  (the array of differences is empty and has no argmax), and \<open>predict\<close> with MCut on for
  a group of fewer than two indexes returns an error, not a result.
\<close>

theorem mcut_degenerate_group_raises:
  "(length probs < 2 \<longrightarrow> mcut_threshold probs = Inl ValueError) \<and>
   (load_model env repo self = (io, err, self') \<and> general_indexes self' = Some gidx \<and>
      length gidx < 2 \<longrightarrow> (\<exists>e. fst (predict env im repo gt True ct cm self) = Inl e)) \<and>
   (load_model env repo self = (io, err, self') \<and> character_indexes self' = Some cidx \<and>
      length cidx < 2 \<longrightarrow> (\<exists>e. fst (predict env im repo gt gm ct True self) = Inl e))"
proof (intro conjI impI)
  assume "length probs < 2"
  then show "mcut_threshold probs = Inl ValueError" by (rule mcut_threshold_short)
next
  assume a: "load_model env repo self = (io, err, self') \<and> general_indexes self' = Some gidx \<and>
      length gidx < 2"
  show "\<exists>e. fst (predict env im repo gt True ct cm self) = Inl e"
  proof (cases "fst (predict env im repo gt True ct cm self)")
    case (Inl e)
    then show ?thesis by blast
  next
    case (Inr out)
    obtain s rating cres gres where out: "out = (s, rating, cres, gres)" by (cases out) auto
    from predict_Inr_D[OF Inr] a have s: "snd (predict env im repo gt True ct cm self) = self'"
      by auto
    from predict_Inr_full[OF Inr[unfolded out]] s a obtain preds gth where
      "mcut_threshold (map (\<lambda>i. preds ! i) gidx) = Inr gth" by auto
    moreover have "mcut_threshold (map (\<lambda>i. preds ! i) gidx) = Inl ValueError"
      using a by (intro mcut_threshold_short) simp
    ultimately show ?thesis by simp
  qed
next
  assume a: "load_model env repo self = (io, err, self') \<and> character_indexes self' = Some cidx \<and>
      length cidx < 2"
  show "\<exists>e. fst (predict env im repo gt gm ct True self) = Inl e"
  proof (cases "fst (predict env im repo gt gm ct True self)")
    case (Inl e)
    then show ?thesis by blast
  next
    case (Inr out)
    obtain s rating cres gres where out: "out = (s, rating, cres, gres)" by (cases out) auto
    from predict_Inr_D[OF Inr] a have s: "snd (predict env im repo gt gm ct True self) = self'"
      by auto
    from predict_Inr_full[OF Inr[unfolded out]] s a obtain preds cth where
      "andthen (mcut_threshold (map (\<lambda>i. preds ! i) cidx)) (\<lambda>t. Inr (max (float64 (15 / 100)) t)) = Inr cth"
      by auto
    moreover have "mcut_threshold (map (\<lambda>i. preds ! i) cidx) = Inl ValueError"
      using a by (intro mcut_threshold_short) simp
    ultimately show ?thesis by (simp add: andthen_def)
  qed
qed

theorem mcut_degenerate_group_raises_witness:
  "length [5 / 10 :: real] < 2 \<and> mcut_threshold [5 / 10] = Inl ValueError \<and>
   load_model env_single ''m'' Predictor_init =
     (fst (load_model env_single ''m'' Predictor_init), None,
      snd (snd (load_model env_single ''m'' Predictor_init))) \<and>
   general_indexes (snd (snd (load_model env_single ''m'' Predictor_init))) = Some [1] \<and>
   length [1 :: nat] < 2 \<and>
   (\<exists>e. fst (predict env_single one_pixel ''m'' (35 / 100) True (85 / 100) False Predictor_init) = Inl e) \<and>
   fst (predict env_single one_pixel ''m'' (35 / 100) True (85 / 100) False Predictor_init) = Inl ValueError \<and>
   character_indexes (snd (snd (load_model env_single ''m'' Predictor_init))) = Some [2, 3] \<and>
   fst (predict env_single one_pixel ''m'' (35 / 100) False (85 / 100) True Predictor_init) =
     Inr (''solo'', [(''general'', 9 / 10)], [(''reimu'', 3 / 10)], [(''solo'', 5 / 10)])"
proof -
  have l: "load_model env_single ''m'' Predictor_init =
     (fst (load_model env_single ''m'' Predictor_init), None,
      snd (snd (load_model env_single ''m'' Predictor_init)))"
    by (simp add: eval_stub)
  have g: "general_indexes (snd (snd (load_model env_single ''m'' Predictor_init))) = Some [1]"
    by (simp add: eval_stub)
  have c: "character_indexes (snd (snd (load_model env_single ''m'' Predictor_init))) = Some [2, 3]"
    by (simp add: eval_stub)
  have p: "fst (predict env_single one_pixel ''m'' (35 / 100) True (85 / 100) False Predictor_init) = Inl ValueError"
    by (simp add: eval_stub)
  have q: "fst (predict env_single one_pixel ''m'' (35 / 100) False (85 / 100) True Predictor_init) =
     Inr (''solo'', [(''general'', 9 / 10)], [(''reimu'', 3 / 10)], [(''solo'', 5 / 10)])"
    by (simp add: eval_stub)
  show ?thesis
    using l g c p q
      mcut_degenerate_group_raises[where probs = "[5 / 10]" and env = env_single and repo = "''m''"
        and self = Predictor_init and io = "fst (load_model env_single ''m'' Predictor_init)"
        and err = None and self' = "snd (snd (load_model env_single ''m'' Predictor_init))"
        and gidx = "[1]" and im = one_pixel and gt = "35 / 100" and ct = "85 / 100"
        and cm = False]
    by simp
qed

subsection \<open>The formatted string\<close>

text \<open>
  Claim C7. The formatted string is the names of the general mapping in an order that is
  a rearrangement of the mapping, descending in confidence, with the items of equal
  confidence in the order the mapping had them, joined by a comma and a space; in the
  joined string every opening and closing parenthesis gets a backslash before it and no
  other character changes. The mapping of \<^verbatim>\<open>cat(ears)\<close> to 0.9 and \<^verbatim>\<open>smile\<close> to 0.8
  gives \<^verbatim>\<open>cat\(ears\), smile\<close>, and the string that \<open>predict\<close> returns is the formatted
  general mapping it returns.
\<close>

theorem format_tags_sorted_escaped:
  "(\<exists>ys. mset ys = mset general_res \<and> sorted_wrt (\<lambda>a b. b \<le> a) (map snd ys) \<and>
      (\<forall>c. filter (\<lambda>x. snd x = c) ys = filter (\<lambda>x. snd x = c) general_res) \<and>
      format_tags general_res =
        concat (map (\<lambda>c. if c = CHR ''('' \<or> c = CHR '')'' then [CHR 0x5C, c] else [c])
          (str_join '', '' (map fst ys)))) \<and>
   format_tags [(''cat(ears)'', 9 / 10), (''smile'', 8 / 10)] =
     ''cat'' @ [CHR 0x5C] @ ''(ears'' @ [CHR 0x5C] @ ''), smile'' \<and>
   (fst (predict env im repo gt gm ct cm self) = Inr (s, rating, cres, gres) \<longrightarrow>
      s = format_tags gres)"
proof (intro conjI impI)
  let ?ys = "sort_key (\<lambda>x. - snd x) general_res"
  have "mset ?ys = mset general_res" by simp
  moreover have "sorted_wrt (\<lambda>a b. b \<le> a) (map snd ?ys)" by (rule sorted_desc_sort_key)
  moreover have "\<forall>c. filter (\<lambda>x. snd x = c) ?ys = filter (\<lambda>x. snd x = c) general_res"
    by (simp add: stable_desc_sort_key)
  moreover have "format_tags general_res =
        concat (map (\<lambda>c. if c = CHR ''('' \<or> c = CHR '')'' then [CHR 0x5C, c] else [c])
          (str_join '', '' (map fst ?ys)))"
    unfolding format_tags_def Let_def by (rule escape_parens)
  ultimately show "\<exists>ys. mset ys = mset general_res \<and> sorted_wrt (\<lambda>a b. b \<le> a) (map snd ys) \<and>
      (\<forall>c. filter (\<lambda>x. snd x = c) ys = filter (\<lambda>x. snd x = c) general_res) \<and>
      format_tags general_res =
        concat (map (\<lambda>c. if c = CHR ''('' \<or> c = CHR '')'' then [CHR 0x5C, c] else [c])
          (str_join '', '' (map fst ys)))"
    by blast
next
  show "format_tags [(''cat(ears)'', 9 / 10), (''smile'', 8 / 10)] =
     ''cat'' @ [CHR 0x5C] @ ''(ears'' @ [CHR 0x5C] @ ''), smile''"
    by (simp add: format_tags_def str_replace_def)
next
  assume "fst (predict env im repo gt gm ct cm self) = Inr (s, rating, cres, gres)"
  from predict_Inr_full[OF this] show "s = format_tags gres" by blast
qed

theorem format_tags_sorted_escaped_witness:
  "fst (predict env_fixed one_pixel ''m'' (35 / 100) False (85 / 100) False Predictor_init) =
     Inr (''cat '' @ [CHR 0x5C] @ ''(ears'' @ [CHR 0x5C] @ ''), smile, ^_^'',
          [(''general'', 9 / 10), (''sensitive'', 1 / 10)],
          [(''power (csm)'', 95 / 100)],
          [(''cat (ears)'', 9 / 10), (''^_^'', 6 / 10), (''smile'', 8 / 10)]) \<and>
   ''cat '' @ [CHR 0x5C] @ ''(ears'' @ [CHR 0x5C] @ ''), smile, ^_^'' =
     format_tags [(''cat (ears)'', 9 / 10), (''^_^'', 6 / 10), (''smile'', 8 / 10)]"
proof -
  have h: "fst (predict env_fixed one_pixel ''m'' (35 / 100) False (85 / 100) False Predictor_init) =
     Inr (''cat '' @ [CHR 0x5C] @ ''(ears'' @ [CHR 0x5C] @ ''), smile, ^_^'',
          [(''general'', 9 / 10), (''sensitive'', 1 / 10)],
          [(''power (csm)'', 95 / 100)],
          [(''cat (ears)'', 9 / 10), (''^_^'', 6 / 10), (''smile'', 8 / 10)])"
    by (simp add: eval_stub)
  from format_tags_sorted_escaped[of "[]" env_fixed one_pixel "''m''" "35 / 100" False "85 / 100"
      False Predictor_init "''cat '' @ [CHR 0x5C] @ ''(ears'' @ [CHR 0x5C] @ ''), smile, ^_^''"
      "[(''general'', 9 / 10), (''sensitive'', 1 / 10)]" "[(''power (csm)'', 95 / 100)]"
      "[(''cat (ears)'', 9 / 10), (''^_^'', 6 / 10), (''smile'', 8 / 10)]"] h
  show ?thesis by blast
qed

subsection \<open>Rows with the same name\<close>



subsection \<open>The cache of the loaded model\<close>

text \<open>
  Claim C8. A load of the identifier that is cached returns at once: it calls no
  collaborator and leaves the predictor as it is. So after a load that returned, a second
  load of the same identifier does nothing, whatever the collaborators would answer. A
  load of another identifier that returns has fetched both files, read the table and built
  the session, once each, and has replaced the catalog, the session, the target size and
  the identifier.
\<close>

theorem load_model_idempotent:
  "(last_loaded_repo self = Some repo \<longrightarrow> load_model env repo self = ([], None, self)) \<and>
   (load_model env repo self = (io, None, self') \<longrightarrow>
      load_model env' repo self' = ([], None, self')) \<and>
   (last_loaded_repo self \<noteq> Some repo \<and> load_model env repo self = (io, None, self') \<longrightarrow>
      (\<exists>csv_path model_path df names ridx gidx cidx m d0 height width d3.
         hf_hub_download env repo LABEL_FILENAME = Inr csv_path \<and>
         hf_hub_download env repo MODEL_FILENAME = Inr model_path \<and>
         read_csv env csv_path = Inr df \<and> load_labels df = Inr (names, ridx, gidx, cidx) \<and>
         InferenceSession env model_path = Inr m \<and> input_shape m = [d0, height, width, d3] \<and>
         io = [Download repo LABEL_FILENAME, Download repo MODEL_FILENAME, ReadCsv csv_path,
               NewSession model_path] \<and>
         self' = \<lparr>tag_names = Some names, rating_indexes = Some ridx,
                   general_indexes = Some gidx, character_indexes = Some cidx,
                   model = Some m, model_target_size = Some height,
                   last_loaded_repo = Some repo\<rparr>))"
proof (intro conjI impI)
  assume "last_loaded_repo self = Some repo"
  then show "load_model env repo self = ([], None, self)" by (rule load_model_hit)
next
  assume "load_model env repo self = (io, None, self')"
  then have "last_loaded_repo self' = Some repo" by (rule load_model_ok_repo)
  then show "load_model env' repo self' = ([], None, self')" by (rule load_model_hit)
next
  assume a: "last_loaded_repo self \<noteq> Some repo \<and> load_model env repo self = (io, None, self')"
  from load_model_miss_ok[OF conjunct1[OF a] conjunct2[OF a]]
  obtain csv_path model_path df names ridx gidx cidx m d0 height width d3 where
    f: "hf_hub_download env repo LABEL_FILENAME = Inr csv_path"
       "hf_hub_download env repo MODEL_FILENAME = Inr model_path"
       "read_csv env csv_path = Inr df" "load_labels df = Inr (names, ridx, gidx, cidx)"
       "InferenceSession env model_path = Inr m" "input_shape m = [d0, height, width, d3]"
       "io = [Download repo LABEL_FILENAME, Download repo MODEL_FILENAME, ReadCsv csv_path,
              NewSession model_path]"
    and s: "self' = self\<lparr>tag_names := Some names, rating_indexes := Some ridx,
                   general_indexes := Some gidx, character_indexes := Some cidx,
                   model_target_size := Some height, last_loaded_repo := Some repo,
                   model := Some m\<rparr>"
    by blast
  have "self' = \<lparr>tag_names = Some names, rating_indexes = Some ridx,
                   general_indexes = Some gidx, character_indexes = Some cidx,
                   model = Some m, model_target_size = Some height,
                   last_loaded_repo = Some repo\<rparr>"
    unfolding s by simp
  with f show "\<exists>csv_path model_path df names ridx gidx cidx m d0 height width d3.
         hf_hub_download env repo LABEL_FILENAME = Inr csv_path \<and>
         hf_hub_download env repo MODEL_FILENAME = Inr model_path \<and>
         read_csv env csv_path = Inr df \<and> load_labels df = Inr (names, ridx, gidx, cidx) \<and>
         InferenceSession env model_path = Inr m \<and> input_shape m = [d0, height, width, d3] \<and>
         io = [Download repo LABEL_FILENAME, Download repo MODEL_FILENAME, ReadCsv csv_path,
               NewSession model_path] \<and>
         self' = \<lparr>tag_names = Some names, rating_indexes = Some ridx,
                   general_indexes = Some gidx, character_indexes = Some cidx,
                   model = Some m, model_target_size = Some height,
                   last_loaded_repo = Some repo\<rparr>"
    by blast
qed

theorem load_model_idempotent_witness:
  "load_model env_fixed ''m'' Predictor_init =
     ([Download ''m'' LABEL_FILENAME, Download ''m'' MODEL_FILENAME,
       ReadCsv ''m/selected_tags.csv'', NewSession ''m/model.onnx''], None, loaded_fixed) \<and>
   load_model env_offline ''m'' loaded_fixed = ([], None, loaded_fixed) \<and>
   last_loaded_repo loaded_fixed = Some ''m'' \<and>
   load_model env_floor ''m'' loaded_fixed = ([], None, loaded_fixed) \<and>
   last_loaded_repo Predictor_init \<noteq> Some ''m'' \<and>
   (\<exists>csv_path model_path df names ridx gidx cidx m d0 height width d3.
      hf_hub_download env_fixed ''m'' LABEL_FILENAME = Inr csv_path \<and>
      hf_hub_download env_fixed ''m'' MODEL_FILENAME = Inr model_path \<and>
      read_csv env_fixed csv_path = Inr df \<and> load_labels df = Inr (names, ridx, gidx, cidx) \<and>
      InferenceSession env_fixed model_path = Inr m \<and> input_shape m = [d0, height, width, d3] \<and>
      [Download ''m'' LABEL_FILENAME, Download ''m'' MODEL_FILENAME,
       ReadCsv ''m/selected_tags.csv'', NewSession ''m/model.onnx''] =
        [Download ''m'' LABEL_FILENAME, Download ''m'' MODEL_FILENAME, ReadCsv csv_path,
         NewSession model_path] \<and>
      loaded_fixed = \<lparr>tag_names = Some names, rating_indexes = Some ridx,
                   general_indexes = Some gidx, character_indexes = Some cidx,
                   model = Some m, model_target_size = Some height,
                   last_loaded_repo = Some ''m''\<rparr>)"
proof -
  have l: "load_model env_fixed ''m'' Predictor_init =
     ([Download ''m'' LABEL_FILENAME, Download ''m'' MODEL_FILENAME,
       ReadCsv ''m/selected_tags.csv'', NewSession ''m/model.onnx''], None, loaded_fixed)"
    by (simp add: eval_stub)
  have r: "last_loaded_repo loaded_fixed = Some ''m''" by (simp add: loaded_fixed_def)
  have n: "last_loaded_repo Predictor_init \<noteq> Some ''m''" by (simp add: Predictor_init_def)
  note T = load_model_idempotent[where self = Predictor_init and repo = "''m''" and env = env_fixed
      and env' = env_offline and self' = loaded_fixed
      and io = "[Download ''m'' LABEL_FILENAME, Download ''m'' MODEL_FILENAME,
       ReadCsv ''m/selected_tags.csv'', NewSession ''m/model.onnx'']"]
  note c2 = T[THEN conjunct2, THEN conjunct1, THEN mp, OF l]
  note c3 = T[THEN conjunct2, THEN conjunct2, THEN mp, OF conjI[OF n l]]
  note c1 = load_model_idempotent[where self = loaded_fixed and repo = "''m''" and env = env_floor,
      THEN conjunct1, THEN mp, OF r]
  show ?thesis by (intro conjI l c2 r c1 n c3)
qed

subsection \<open>A load that fails\<close>

text \<open>
  Claim C2, as amended. A load that raises leaves the session, the target size and the
  cached identifier as they were; and when it is the fetch, the reading of the table or
  the building of the catalog that raises, it leaves the whole predictor as it was.
\<close>

theorem load_model_failure_keeps_cache:
  "load_model env repo self = (io, Some e, self') \<longrightarrow>
     model self' = model self \<and> model_target_size self' = model_target_size self \<and>
     last_loaded_repo self' = last_loaded_repo self \<and>
     (snd (download_model env repo) = Inl fetch_err \<longrightarrow> e = fetch_err \<and> self' = self) \<and>
     (snd (download_model env repo) = Inr (csv_path, model_path) \<and>
        read_csv env csv_path = Inl read_err \<longrightarrow> e = read_err \<and> self' = self) \<and>
     (snd (download_model env repo) = Inr (csv_path, model_path) \<and>
        read_csv env csv_path = Inr df \<and> load_labels df = Inl label_err \<longrightarrow> e = label_err \<and> self' = self)"
proof (intro impI conjI)
  assume a: "load_model env repo self = (io, Some e, self')"
  note k = load_model_fail_keeps[OF a]
  from k show "model self' = model self" by blast
  from k show "model_target_size self' = model_target_size self" by blast
  from k show "last_loaded_repo self' = last_loaded_repo self" by blast
  note m = load_model_fail_miss[OF a]
  {
    assume "snd (download_model env repo) = Inl fetch_err"
    from load_model_fetch_fail[OF a this m] show "e = fetch_err" "self' = self" by simp_all
  }
  {
    assume b: "snd (download_model env repo) = Inr (csv_path, model_path) \<and>
        read_csv env csv_path = Inl read_err"
    from load_model_read_fail[OF a conjunct1[OF b] conjunct2[OF b] m]
    show "e = read_err" "self' = self" by simp_all
  }
  {
    assume b: "snd (download_model env repo) = Inr (csv_path, model_path) \<and>
        read_csv env csv_path = Inr df \<and> load_labels df = Inl label_err"
    from load_model_labels_fail[OF a conjunct1[OF b] conjunct1[OF conjunct2[OF b]]
        conjunct2[OF conjunct2[OF b]] m]
    show "e = label_err" "self' = self" by simp_all
  }
qed

theorem load_model_failure_keeps_cache_witness:
  "load_model env_offline ''n'' loaded_fixed =
     ([Download ''n'' LABEL_FILENAME], Some FetchError, loaded_fixed) \<and>
   snd (download_model env_offline ''n'') = Inl FetchError \<and>
   model loaded_fixed = model loaded_fixed \<and>
   FetchError = FetchError \<and> loaded_fixed = loaded_fixed"
proof -
  have l: "load_model env_offline ''n'' loaded_fixed =
     ([Download ''n'' LABEL_FILENAME], Some FetchError, loaded_fixed)"
    by (simp add: eval_stub)
  have d: "snd (download_model env_offline ''n'') = Inl FetchError"
    by (simp add: eval_stub)
  note T = load_model_failure_keeps_cache[where env = env_offline and repo = "''n''"
      and self = loaded_fixed and io = "[Download ''n'' LABEL_FILENAME]" and e = FetchError
      and self' = loaded_fixed and fetch_err = FetchError, THEN mp, OF l]
  note c1 = T[THEN conjunct1]
  note c2 = T[THEN conjunct2, THEN conjunct2, THEN conjunct2, THEN conjunct1, THEN mp, OF d]
  show ?thesis by (intro conjI l d c1 c2[THEN conjunct1] c2[THEN conjunct2])
qed

text \<open>
  The claim as it was stated fails when the session cannot be built: the catalog of the new
  model is stored before, and stays, beside the session and the identifier of the old
  model; a later \<open>predict\<close> for the old identifier then names the old session's
  confidences with the new catalog.
\<close>

theorem load_model_half_update_counterexample:
  "load_model env_broken ''n'' loaded_fixed =
     ([Download ''n'' LABEL_FILENAME, Download ''n'' MODEL_FILENAME,
       ReadCsv ''n/selected_tags.csv'', NewSession ''n/model.onnx''],
      Some SessionError,
      loaded_fixed\<lparr>tag_names := Some [''general'', ''long hair'', ''long hair'', ''reimu''],
                   rating_indexes := Some [0], general_indexes := Some [1, 2],
                   character_indexes := Some [3]\<rparr>) \<and>
   snd (snd (load_model env_broken ''n'' loaded_fixed)) \<noteq> loaded_fixed \<and>
   tag_names (snd (snd (load_model env_broken ''n'' loaded_fixed))) \<noteq> tag_names loaded_fixed \<and>
   model (snd (snd (load_model env_broken ''n'' loaded_fixed))) = model loaded_fixed \<and>
   last_loaded_repo (snd (snd (load_model env_broken ''n'' loaded_fixed))) = Some ''m'' \<and>
   fst (predict env_fixed one_pixel ''m'' (35 / 100) False (85 / 100) False
          (snd (snd (load_model env_broken ''n'' loaded_fixed)))) =
     Inr ([], [(''general'', 9 / 10)], [(''reimu'', 9 / 10)], [])"
  by (simp add: eval_stub)

subsection \<open>A prediction vector of another length than the catalog\<close>

text \<open>
  Claim C1, as amended. \<open>predict\<close> does not compare the length of the prediction vector
  with the length of the catalog: it pairs names and confidences by position up to the
  shorter of the two. When some rating, general or character index is not below that
  shorter length it fails (with IndexError when both MCut flags are off); when every such
  index is below it and both MCut flags are off, it returns the result built from the
  pairs.
\<close>

theorem predict_zip_truncates:
  assumes "load_model env repo self = (io, None, self')"
    "tag_names self' = Some names" "rating_indexes self' = Some ridx"
    "general_indexes self' = Some gidx" "character_indexes self' = Some cidx"
    "model self' = Some m" "prepare_image env self' im = Inr tensor"
    "run m tensor = Inr preds"
  shows
    "((\<exists>i \<in> set (ridx @ gidx @ cidx). min (length names) (length preds) \<le> i) \<longrightarrow>
        fst (predict env im repo gt False ct False self) = Inl IndexError \<and>
        (\<exists>e. fst (predict env im repo gt gm ct cm self) = Inl e)) \<and>
     ((\<forall>i \<in> set (ridx @ gidx @ cidx). i < min (length names) (length preds)) \<longrightarrow>
        fst (predict env im repo gt False ct False self) =
          Inr (format_tags (py_dict (map (\<lambda>i. (names ! i, preds ! i))
                                       (filter (\<lambda>i. gt < preds ! i) gidx))),
               py_dict (map (\<lambda>i. (names ! i, preds ! i)) ridx),
               py_dict (map (\<lambda>i. (names ! i, preds ! i)) (filter (\<lambda>i. ct < preds ! i) cidx)),
               py_dict (map (\<lambda>i. (names ! i, preds ! i)) (filter (\<lambda>i. gt < preds ! i) gidx))))"
proof (intro conjI impI)
  note P = predict_load_ok[OF assms(1)]
  note L = predict_loaded_eq[OF assms(7) assms(6) assms(8) assms(2) assms(3) assms(4) assms(5)]
  {
    assume a: "\<exists>i \<in> set (ridx @ gidx @ cidx). min (length names) (length preds) \<le> i"
    then have "\<not> (\<forall>i \<in> set ridx. i < min (length names) (length preds)) \<or>
               \<not> (\<forall>i \<in> set gidx. i < min (length names) (length preds)) \<or>
               \<not> (\<forall>i \<in> set cidx. i < min (length names) (length preds))"
      unfolding set_append bex_Un by (meson not_less)
    then show "fst (predict env im repo gt False ct False self) = Inl IndexError"
      unfolding P L pick_zip_eq by (auto simp: andthen_def)
    show "\<exists>e. fst (predict env im repo gt gm ct cm self) = Inl e"
    proof (cases "fst (predict env im repo gt gm ct cm self)")
      case (Inl e)
      then show ?thesis by blast
    next
      case (Inr out)
      obtain s rating cres gres where out: "out = (s, rating, cres, gres)" by (cases out) auto
      from predict_Inr_full[OF Inr[unfolded out]] P assms
      have "\<forall>i \<in> set (ridx @ gidx @ cidx). i < length names \<and> i < length preds"
        by auto
      with a show ?thesis unfolding set_append bex_Un ball_Un by (meson min_less_iff_conj not_less)
    qed
  }
  {
    assume a: "\<forall>i \<in> set (ridx @ gidx @ cidx). i < min (length names) (length preds)"
    then show "fst (predict env im repo gt False ct False self) =
          Inr (format_tags (py_dict (map (\<lambda>i. (names ! i, preds ! i))
                                       (filter (\<lambda>i. gt < preds ! i) gidx))),
               py_dict (map (\<lambda>i. (names ! i, preds ! i)) ridx),
               py_dict (map (\<lambda>i. (names ! i, preds ! i)) (filter (\<lambda>i. ct < preds ! i) cidx)),
               py_dict (map (\<lambda>i. (names ! i, preds ! i)) (filter (\<lambda>i. gt < preds ! i) gidx)))"
      unfolding P L pick_zip_eq by (simp add: andthen_def filter_pairs)
  }
qed

theorem predict_zip_truncates_witness:
  "load_model env_past_end ''m'' Predictor_init =
     (fst (load_model env_past_end ''m'' Predictor_init), None, loaded env_past_end) \<and>
   tag_names (loaded env_past_end) = Some [''general'', ''solo'', ''reimu''] \<and>
   rating_indexes (loaded env_past_end) = Some [0] \<and>
   general_indexes (loaded env_past_end) = Some [1] \<and>
   character_indexes (loaded env_past_end) = Some [2] \<and>
   model (loaded env_past_end) = Some (stub_session [9 / 10, 8 / 10]) \<and>
   prepare_image env_past_end (loaded env_past_end) one_pixel = Inr [[[[30, 20, 10]]]] \<and>
   run (stub_session [9 / 10, 8 / 10]) [[[[30, 20, 10]]]] = Inr [9 / 10, 8 / 10] \<and>
   (\<exists>i \<in> set ([0] @ [1] @ [2 :: nat]).
      min (length [''general'', ''solo'', ''reimu'']) (length [9 / 10, 8 / 10 :: real]) \<le> i) \<and>
   fst (predict env_past_end one_pixel ''m'' (35 / 100) False (85 / 100) False Predictor_init) =
     Inl IndexError \<and>
   load_model env_longer ''m'' Predictor_init =
     (fst (load_model env_longer ''m'' Predictor_init), None, loaded env_longer) \<and>
   tag_names (loaded env_longer) = Some [''general'', ''solo''] \<and>
   rating_indexes (loaded env_longer) = Some [0] \<and>
   general_indexes (loaded env_longer) = Some [1] \<and>
   character_indexes (loaded env_longer) = Some [] \<and>
   model (loaded env_longer) = Some (stub_session [9 / 10, 8 / 10, 7 / 10]) \<and>
   prepare_image env_longer (loaded env_longer) one_pixel = Inr [[[[30, 20, 10]]]] \<and>
   run (stub_session [9 / 10, 8 / 10, 7 / 10]) [[[[30, 20, 10]]]] = Inr [9 / 10, 8 / 10, 7 / 10] \<and>
   list_all (\<lambda>i. i < min (length [''general'', ''solo''])
                          (length [9 / 10, 8 / 10, 7 / 10 :: real])) ([0] @ [1] @ []) \<and>
   fst (predict env_longer one_pixel ''m'' (35 / 100) False (85 / 100) False Predictor_init) =
     Inr (''solo'', [(''general'', 9 / 10)], [], [(''solo'', 8 / 10)])"
proof -
  have a1: "load_model env_past_end ''m'' Predictor_init =
     (fst (load_model env_past_end ''m'' Predictor_init), None, loaded env_past_end)"
    by (simp add: eval_stub)
  have a2: "tag_names (loaded env_past_end) = Some [''general'', ''solo'', ''reimu'']"
    by (simp add: eval_stub)
  have a3: "rating_indexes (loaded env_past_end) = Some [0]" by (simp add: eval_stub)
  have a4: "general_indexes (loaded env_past_end) = Some [1]" by (simp add: eval_stub)
  have a5: "character_indexes (loaded env_past_end) = Some [2]" by (simp add: eval_stub)
  have a6: "model (loaded env_past_end) = Some (stub_session [9 / 10, 8 / 10])"
    by (simp add: eval_stub)
  have a7: "prepare_image env_past_end (loaded env_past_end) one_pixel = Inr [[[[30, 20, 10]]]]"
    by (simp add: eval_stub)
  have a8: "run (stub_session [9 / 10, 8 / 10]) [[[[30, 20, 10]]]] = Inr [9 / 10, 8 / 10]"
    by (simp add: stub_session_def)
  have a9: "\<exists>i \<in> set ([0] @ [1] @ [2 :: nat]).
      min (length [''general'', ''solo'', ''reimu'']) (length [9 / 10, 8 / 10 :: real]) \<le> i"
    by simp
  note A = predict_zip_truncates[OF a1 a2 a3 a4 a5 a6 a7 a8, where gt = "35 / 100"
      and ct = "85 / 100" and gm = False and cm = False,
      THEN conjunct1, THEN mp, OF a9, THEN conjunct1]
  have b1: "load_model env_longer ''m'' Predictor_init =
     (fst (load_model env_longer ''m'' Predictor_init), None, loaded env_longer)"
    by (simp add: eval_stub)
  have b2: "tag_names (loaded env_longer) = Some [''general'', ''solo'']"
    by (simp add: eval_stub)
  have b3: "rating_indexes (loaded env_longer) = Some [0]" by (simp add: eval_stub)
  have b4: "general_indexes (loaded env_longer) = Some [1]" by (simp add: eval_stub)
  have b5: "character_indexes (loaded env_longer) = Some []" by (simp add: eval_stub)
  have b6: "model (loaded env_longer) = Some (stub_session [9 / 10, 8 / 10, 7 / 10])"
    by (simp add: eval_stub)
  have b7: "prepare_image env_longer (loaded env_longer) one_pixel = Inr [[[[30, 20, 10]]]]"
    by (simp add: eval_stub)
  have b8: "run (stub_session [9 / 10, 8 / 10, 7 / 10]) [[[[30, 20, 10]]]] =
      Inr [9 / 10, 8 / 10, 7 / 10]"
    by (simp add: stub_session_def)
  have b9: "\<forall>i \<in> set ([0] @ [1] @ []).
      i < min (length [''general'', ''solo'']) (length [9 / 10, 8 / 10, 7 / 10 :: real])"
    by simp
  have b9': "list_all (\<lambda>i. i < min (length [''general'', ''solo''])
                          (length [9 / 10, 8 / 10, 7 / 10 :: real])) ([0] @ [1] @ [])"
    by simp
  note B = predict_zip_truncates[OF b1 b2 b3 b4 b5 b6 b7 b8, where gt = "35 / 100"
      and ct = "85 / 100", THEN conjunct2, THEN mp, OF b9]
  have B': "fst (predict env_longer one_pixel ''m'' (35 / 100) False (85 / 100) False Predictor_init) =
     Inr (''solo'', [(''general'', 9 / 10)], [], [(''solo'', 8 / 10)])"
    using B by (simp add: py_dict_def format_tags_def str_replace_def)
  show ?thesis by (intro conjI a1 a2 a3 a4 a5 a6 a7 a8 a9 A b1 b2 b3 b4 b5 b6 b7 b8 b9' B')
qed

text \<open>
  The claim as it was stated fails in both directions: with a vector longer than the
  catalog, and with a vector shorter than the catalog whose missing positions belong to no
  group, \<open>predict\<close> returns a result.
\<close>

theorem predict_length_mismatch_counterexample:
  "tag_names (loaded env_longer) = Some [''general'', ''solo''] \<and>
   model (loaded env_longer) = Some (stub_session [9 / 10, 8 / 10, 7 / 10]) \<and>
   run (stub_session [9 / 10, 8 / 10, 7 / 10]) [[[[30, 20, 10]]]] = Inr [9 / 10, 8 / 10, 7 / 10] \<and>
   length [9 / 10, 8 / 10, 7 / 10 :: real] \<noteq> length [''general'', ''solo''] \<and>
   predict env_longer one_pixel ''m'' (35 / 100) False (85 / 100) False Predictor_init =
     (Inr (''solo'', [(''general'', 9 / 10)], [], [(''solo'', 8 / 10)]), loaded env_longer) \<and>
   tag_names (loaded env_shorter) = Some [''general'', ''solo'', ''artist name''] \<and>
   model (loaded env_shorter) = Some (stub_session [9 / 10, 8 / 10]) \<and>
   run (stub_session [9 / 10, 8 / 10]) [[[[30, 20, 10]]]] = Inr [9 / 10, 8 / 10] \<and>
   length [9 / 10, 8 / 10 :: real] \<noteq> length [''general'', ''solo'', ''artist name''] \<and>
   predict env_shorter one_pixel ''m'' (35 / 100) False (85 / 100) False Predictor_init =
     (Inr (''solo'', [(''general'', 9 / 10)], [], [(''solo'', 8 / 10)]), loaded env_shorter)"
  by (simp add: eval_stub)

subsection \<open>The prepared image\<close>

text \<open>
  Claim C6. With a model of target size \<open>S\<close> loaded, \<open>prepare_image\<close> returns, for an image
  of any width and height, a tensor of one \<open>S\<close> by \<open>S\<close> array of pixels of three channels.
  The pixel at row \<open>y\<close> and column \<open>x\<close> is the blue, green and red byte, in this order and
  as the numbers they are (between 0 and 255), of the final image: the padded square when
  its side is \<open>S\<close>, the bicubic resize of the padded square to \<open>S\<close> by \<open>S\<close> otherwise. The
  padded square has the longer side of the image as its side; it holds the flattened
  image at the offsets \<open>(max w h - w) div 2\<close> and \<open>(max w h - h) div 2\<close> and is white
  elsewhere, so every pixel of the image is in it. When the longer side is \<open>S\<close> the result
  does not depend on the resampling.
\<close>

theorem prepare_image_square_bgr:
  assumes "model_target_size self = Some S" "0 < S" "im_size im = (w, h)" "0 < w" "0 < h"
  shows "\<exists>t final.
     prepare_image env self im = Inr [t] \<and>
     length t = S \<and> (\<forall>row \<in> set t. length row = S \<and> (\<forall>px \<in> set row. length px = 3)) \<and>
     final = (if max w h = S then pad_square (flatten_white env im)
              else \<lparr>im_size = (S, S),
                    getpixel = bicubic env (S, S) (pad_square (flatten_white env im))\<rparr>) \<and>
     (\<forall>x < S. \<forall>y < S. t ! y ! x =
        (case getpixel final (x, y) of
           (r, g, b) \<Rightarrow> [real (unat b), real (unat g), real (unat r)])) \<and>
     (\<forall>x < S. \<forall>y < S. \<forall>c < 3. \<exists>n \<le> 255. t ! y ! x ! c = real n) \<and>
     im_size (pad_square (flatten_white env im)) = (max w h, max w h) \<and>
     (\<forall>x y. getpixel (pad_square (flatten_white env im)) (x, y) =
        (if (max w h - w) div 2 \<le> x \<and> x < (max w h - w) div 2 + w \<and>
            (max w h - h) div 2 \<le> y \<and> y < (max w h - h) div 2 + h
         then getpixel (flatten_white env im) (x - (max w h - w) div 2, y - (max w h - h) div 2)
         else (255, 255, 255))) \<and>
     (\<forall>x < w. \<forall>y < h.
        x + (max w h - w) div 2 < max w h \<and> y + (max w h - h) div 2 < max w h \<and>
        getpixel (pad_square (flatten_white env im))
          (x + (max w h - w) div 2, y + (max w h - h) div 2) =
        getpixel (flatten_white env im) (x, y)) \<and>
     (max w h = S \<longrightarrow> (\<forall>f. prepare_image (env\<lparr>bicubic := f\<rparr>) self im = Inr [t]))"
proof -
  let ?flat = "flatten_white env im"
  let ?pad = "pad_square ?flat"
  let ?final = "if max w h = S then ?pad
              else \<lparr>im_size = (S, S), getpixel = bicubic env (S, S) ?pad\<rparr>"
  let ?t = "map (map rev) (np_asarray ?final)"
  have fs: "im_size ?flat = (w, h)" by (simp add: im_size_flatten_white assms(3))
  have ps: "im_size ?pad = (max w h, max w h)" by (simp add: im_size_pad_square fs)
  have sz: "im_size ?final = (S, S)" using ps by simp
  have p: "prepare_image env self im = Inr [?t]"
    using prepare_image_eq[OF assms(1,2), of env im] assms(3) by simp
  note sh = tensor_shape[OF sz refl]
  have nth: "\<forall>x < S. \<forall>y < S. ?t ! y ! x =
        (case getpixel ?final (x, y) of
           (r, g, b) \<Rightarrow> [real (unat b), real (unat g), real (unat r)])"
    using tensor_nth[OF sz refl] by blast
  have byt: "\<forall>x < S. \<forall>y < S. \<forall>c < 3. \<exists>n \<le> 255. ?t ! y ! x ! c = real n"
    using tensor_bytes[OF sz refl] by blast
  have gp: "\<forall>x y. getpixel ?pad (x, y) =
        (if (max w h - w) div 2 \<le> x \<and> x < (max w h - w) div 2 + w \<and>
            (max w h - h) div 2 \<le> y \<and> y < (max w h - h) div 2 + h
         then getpixel ?flat (x - (max w h - w) div 2, y - (max w h - h) div 2)
         else (255, 255, 255))"
    by (simp add: getpixel_pad_square fs Let_def)
  have nc: "\<forall>x < w. \<forall>y < h.
        x + (max w h - w) div 2 < max w h \<and> y + (max w h - h) div 2 < max w h \<and>
        getpixel ?pad (x + (max w h - w) div 2, y + (max w h - h) div 2) = getpixel ?flat (x, y)"
  proof (intro allI impI)
    fix x y assume x: "x < w" and y: "y < h"
    have "x + (max w h - w) div 2 < max w h" using x by (simp add: max_def) linarith
    moreover have "y + (max w h - h) div 2 < max w h" using y by (simp add: max_def) linarith
    moreover have "getpixel ?pad (x + (max w h - w) div 2, y + (max w h - h) div 2) =
        getpixel ?flat (x, y)"
      using x y by (simp add: gp)
    ultimately show "x + (max w h - w) div 2 < max w h \<and> y + (max w h - h) div 2 < max w h \<and>
        getpixel ?pad (x + (max w h - w) div 2, y + (max w h - h) div 2) = getpixel ?flat (x, y)"
      by blast
  qed
  have nr: "max w h = S \<longrightarrow> (\<forall>f. prepare_image (env\<lparr>bicubic := f\<rparr>) self im = Inr [?t])"
  proof (intro impI allI)
    fix f assume m: "max w h = S"
    show "prepare_image (env\<lparr>bicubic := f\<rparr>) self im = Inr [?t]"
      using prepare_image_eq[OF assms(1,2), of "env\<lparr>bicubic := f\<rparr>" im] assms(3) m
      by (simp add: flatten_white_bicubic)
  qed
  from p sh nth byt ps gp nc nr show ?thesis by blast
qed

theorem prepare_image_square_bgr_witness:
  "model_target_size (loaded_fixed\<lparr>model_target_size := Some 3\<rparr>) = Some 3 \<and> (0 :: nat) < 3 \<and>
   im_size tall_image = (1, 3) \<and> (0 :: nat) < 1 \<and>
   prepare_image env_fixed (loaded_fixed\<lparr>model_target_size := Some 3\<rparr>) tall_image =
     Inr [[[[255, 255, 255], [30, 20, 10], [255, 255, 255]],
           [[255, 255, 255], [30, 20, 10], [255, 255, 255]],
           [[255, 255, 255], [30, 20, 10], [255, 255, 255]]]] \<and>
   prepare_image env_fixed loaded_fixed tall_image = Inr [[[[0, 0, 0]]]] \<and>
   (\<exists>t final.
     prepare_image env_fixed (loaded_fixed\<lparr>model_target_size := Some 3\<rparr>) tall_image = Inr [t] \<and>
     length t = 3 \<and> (\<forall>row \<in> set t. length row = 3 \<and> (\<forall>px \<in> set row. length px = 3)) \<and>
     final = (if max 1 3 = (3 :: nat) then pad_square (flatten_white env_fixed tall_image)
              else \<lparr>im_size = (3, 3),
                    getpixel = bicubic env_fixed (3, 3) (pad_square (flatten_white env_fixed tall_image))\<rparr>) \<and>
     (\<forall>x < 3. \<forall>y < 3. t ! y ! x =
        (case getpixel final (x, y) of
           (r, g, b) \<Rightarrow> [real (unat b), real (unat g), real (unat r)])) \<and>
     (\<forall>x < 3. \<forall>y < 3. \<forall>c < 3. \<exists>n \<le> 255. t ! y ! x ! c = real n) \<and>
     im_size (pad_square (flatten_white env_fixed tall_image)) = (max 1 3, max 1 3) \<and>
     (\<forall>x y. getpixel (pad_square (flatten_white env_fixed tall_image)) (x, y) =
        (if (max 1 3 - 1) div 2 \<le> x \<and> x < (max 1 3 - 1) div 2 + 1 \<and>
            (max 1 3 - 3) div 2 \<le> y \<and> y < (max 1 3 - 3) div 2 + 3
         then getpixel (flatten_white env_fixed tall_image)
                (x - (max 1 3 - 1) div 2, y - (max 1 3 - 3) div 2)
         else (255, 255, 255))) \<and>
     (\<forall>x < 1. \<forall>y < 3.
        x + (max 1 3 - 1) div 2 < max 1 3 \<and> y + (max 1 3 - 3) div 2 < max 1 3 \<and>
        getpixel (pad_square (flatten_white env_fixed tall_image))
          (x + (max 1 3 - 1) div 2, y + (max 1 3 - 3) div 2) =
        getpixel (flatten_white env_fixed tall_image) (x, y)) \<and>
     (max 1 3 = (3 :: nat) \<longrightarrow>
        (\<forall>f. prepare_image (env_fixed\<lparr>bicubic := f\<rparr>)
               (loaded_fixed\<lparr>model_target_size := Some 3\<rparr>) tall_image = Inr [t])))"
proof -
  have h1: "model_target_size (loaded_fixed\<lparr>model_target_size := Some 3\<rparr>) = Some 3" by simp
  have h2: "(0 :: nat) < 3" by simp
  have h3: "im_size tall_image = (1, 3)" by (simp add: tall_image_def)
  have h4: "(0 :: nat) < 1" by simp
  have e1: "prepare_image env_fixed (loaded_fixed\<lparr>model_target_size := Some 3\<rparr>) tall_image =
     Inr [[[[255, 255, 255], [30, 20, 10], [255, 255, 255]],
           [[255, 255, 255], [30, 20, 10], [255, 255, 255]],
           [[255, 255, 255], [30, 20, 10], [255, 255, 255]]]]"
    by (simp add: eval_stub)
  have e2: "prepare_image env_fixed loaded_fixed tall_image = Inr [[[[0, 0, 0]]]]"
    by (simp add: eval_stub)
  note T = prepare_image_square_bgr[OF h1 h2 h3 h4 h2, where env = env_fixed]
  show ?thesis by (intro conjI h1 h2 h3 h4 e1 e2 T)
qed

end
